theory Spec2Isabelle
  imports Complex_Main
begin

section \<open>Exceptions\<close>

text \<open>
  The Python exceptions that the wrapper or the library calls it makes can raise.
  \<open>HTTPError\<close> is a subclass of \<open>URLError\<close>; the others are not.
\<close>

datatype exn =
    KeyError string
  | FileNotFoundError string
  | PermissionError string
  | OSError string
  | URLError string
  | HTTPError int
  | RemoteDisconnected
  | TimeoutError
  | ProcessLookupError

text \<open>\<open>isinstance(e, urllib.error.URLError)\<close>: what \<open>except urllib.error.URLError\<close> catches.\<close>

fun is_URLError :: "exn \<Rightarrow> bool" where
  "is_URLError (URLError _) = True"
| "is_URLError (HTTPError _) = True"
| "is_URLError _ = False"

fun is_ProcessLookupError :: "exn \<Rightarrow> bool" where
  "is_ProcessLookupError ProcessLookupError = True"
| "is_ProcessLookupError _ = False"

section \<open>Strings and paths\<close>

text \<open>\<open>str(n)\<close> for a non-negative integer: its decimal digits.\<close>

definition digit :: "nat \<Rightarrow> char" where
  "digit d = ''0123456789'' ! d"

fun str_nat :: "nat \<Rightarrow> string" where
  "str_nat n = (if n < 10 then [digit n] else str_nat (n div 10) @ [digit (n mod 10)])"

declare str_nat.simps [simp del]

text \<open>\<open>s.split(c)\<close> and \<open>c.join(xs)\<close>.\<close>

fun split_sep :: "char \<Rightarrow> string \<Rightarrow> string list" where
  "split_sep c [] = [] # []"
| "split_sep c (x # xs) =
     (if x = c then [] # split_sep c xs
      else (case split_sep c xs of y # ys \<Rightarrow> (x # y) # ys | [] \<Rightarrow> [x] # []))"

fun join_sep :: "string \<Rightarrow> string list \<Rightarrow> string" where
  "join_sep s [] = []"
| "join_sep s [x] = x"
| "join_sep s (x # y # ys) = x @ s @ join_sep s (y # ys)"

text \<open>
  \<open>pathlib.Path\<close> on a POSIX system, as far as the wrapper uses it: a path is a root
  (\<open>''''\<close>, \<open>''/''\<close> or \<open>''//''\<close>) and a list of components; empty components and
  \<open>.\<close> are dropped when a string is parsed; joining with an absolute path gives that path.
\<close>

record ppath =
  proot :: string
  pparts :: "string list"

definition splitroot :: "string \<Rightarrow> string \<times> string" where
  "splitroot p =
     (if take 1 p \<noteq> ''/'' then ('''', p)
      else if take 1 (drop 1 p) \<noteq> ''/'' \<or> take 1 (drop 2 p) = ''/'' then (''/'', drop 1 p)
      else (take 2 p, drop 2 p))"

definition Path :: "string \<Rightarrow> ppath" where
  "Path s =
     (case splitroot s of (r, rel) \<Rightarrow>
        \<lparr>proot = r, pparts = filter (\<lambda>x. x \<noteq> '''' \<and> x \<noteq> ''.'') (split_sep CHR ''/'' rel)\<rparr>)"

definition truediv :: "ppath \<Rightarrow> string \<Rightarrow> ppath" where
  "truediv p s =
     (let q = Path s
      in if proot q \<noteq> '''' then q else \<lparr>proot = proot p, pparts = pparts p @ pparts q\<rparr>)"

definition str_path :: "ppath \<Rightarrow> string" where
  "str_path p =
     (if proot p = '''' \<and> pparts p = [] then ''.''
      else proot p @ join_sep ''/'' (pparts p))"

definition is_absolute :: "ppath \<Rightarrow> bool" where
  "is_absolute p = (proot p \<noteq> '''')"

section \<open>The world outside the wrapper\<close>

text \<open>
  Everything the wrapper touches is a field of one state: the wall clock, the file
  system (text files by the name given to \<open>open\<close>, holding the text that \<open>read\<close>
  returns), the process table, the \<open>returncode\<close> attribute of each \<open>Popen\<close> object (by
  the pid of its child), and a trace of the effects in the order they happened. The
  remaining fields say how the environment answers: which port the system assigns to a
  bind to port 0, whether an executable can be spawned, what the k-th call of
  \<open>urlopen\<close> does and how long it takes, by how much the k-th \<open>sleep\<close> overshoots
  (negative when the wall clock is set back), whether a file can be opened for writing,
  and what \<open>certifi.where()\<close> returns.

  The state changes by the wrapper's own calls only. What the child or anyone else does
  to the files or the process table while the wrapper runs is not part of it: a file
  that is absent when the constructor starts is absent when the constructor reads it.
\<close>

datatype stream = ParentStdout | ParentStderr

datatype pstate = Running | Zombie int

record proc =
  argv :: "string list"
  penv :: "string \<rightharpoonup> string"
  stdout_to :: stream
  stderr_to :: stream
  pstate :: pstate

datatype event =
    EBind nat
  | EClose nat
  | ESpawn nat "string list"
  | EUrlopen string string real
  | ESleep real
  | ERead string
  | ETruncate string
  | EWrite string string
  | ESignal nat
  | EReap nat

record response =
  status :: int

record attempt =
  dur :: real
  outcome :: "exn + response"

record world =
  clock :: real
  files :: "string \<rightharpoonup> string"
  procs :: "nat \<rightharpoonup> proc"
  returncode :: "nat \<rightharpoonup> int"
  trace :: "event list"
  n_req :: nat
  n_sleep :: nat
  ephemeral :: "exn + nat"
  exec_err :: "string \<Rightarrow> exn option"
  next_pid :: nat
  net :: "nat \<Rightarrow> attempt"
  oversleep :: "nat \<Rightarrow> real"
  open_w_err :: "string \<Rightarrow> exn option"
  certifi_where :: string

type_synonym 'a io = "world \<Rightarrow> (exn + 'a) \<times> world"

definition ret :: "'a \<Rightarrow> 'a io" where
  "ret x w = (Inr x, w)"

definition raise :: "exn \<Rightarrow> 'a io" where
  "raise e w = (Inl e, w)"

definition seq :: "'a io \<Rightarrow> ('a \<Rightarrow> 'b io) \<Rightarrow> 'b io" where
  "seq m f w = (case m w of (Inl e, w') \<Rightarrow> (Inl e, w') | (Inr x, w') \<Rightarrow> f x w')"

subsection \<open>Sockets\<close>

text \<open>\<open>sock.bind(("", 0))\<close> followed by \<open>sock.getsockname()[1]\<close>, and \<open>sock.close()\<close>.\<close>

definition bind_any :: "nat io" where
  "bind_any w =
     (case ephemeral w of
        Inl e \<Rightarrow> (Inl e, w)
      | Inr p \<Rightarrow> (Inr p, w\<lparr>trace := trace w @ [EBind p]\<rparr>))"

definition sock_close :: "nat \<Rightarrow> unit io" where
  "sock_close p w = (Inr (), w\<lparr>trace := trace w @ [EClose p]\<rparr>)"

subsection \<open>Processes\<close>

text \<open>
  \<open>subprocess.Popen(argv, stdout=.., stderr=.., env=..)\<close>: the child runs \<open>argv ! 0\<close>;
  the new \<open>Popen\<close> object has \<open>returncode = None\<close>.
\<close>

definition Popen :: "string list \<Rightarrow> stream \<Rightarrow> stream \<Rightarrow> (string \<rightharpoonup> string) \<Rightarrow> nat io" where
  "Popen args out err env w =
     (case (case args of [] \<Rightarrow> Some (OSError ''empty argv'') | x # _ \<Rightarrow> exec_err w x) of
        Some e \<Rightarrow> (Inl e, w)
      | None \<Rightarrow>
          (Inr (next_pid w),
           w\<lparr>procs := (procs w)(next_pid w \<mapsto>
                \<lparr>argv = args, penv = env, stdout_to = out, stderr_to = err, pstate = Running\<rparr>),
             returncode := (returncode w)(next_pid w := None),
             next_pid := Suc (next_pid w),
             trace := trace w @ [ESpawn (next_pid w) args]\<rparr>))"

text \<open>
  \<open>Popen.poll()\<close>: a non-blocking \<open>waitpid\<close>. A child that has exited is reaped and its
  status recorded; a child the process table no longer knows gets return code 0.
\<close>

definition poll :: "nat \<Rightarrow> (int option) io" where
  "poll p w =
     (case returncode w p of
        Some rc \<Rightarrow> (Inr (Some rc), w)
      | None \<Rightarrow>
          (case procs w p of
             None \<Rightarrow> (Inr (Some 0), w\<lparr>returncode := (returncode w)(p \<mapsto> 0)\<rparr>)
           | Some c \<Rightarrow>
               (case pstate c of
                  Running \<Rightarrow> (Inr None, w)
                | Zombie rc \<Rightarrow>
                    (Inr (Some rc),
                     w\<lparr>procs := (procs w)(p := None),
                       returncode := (returncode w)(p \<mapsto> rc),
                       trace := trace w @ [EReap p]\<rparr>))))"

text \<open>\<open>os.kill(pid, SIGKILL)\<close>: the signal cannot be caught; the child is left unreaped.\<close>

definition os_kill :: "nat \<Rightarrow> unit io" where
  "os_kill p w =
     (case procs w p of
        None \<Rightarrow> (Inl ProcessLookupError, w)
      | Some c \<Rightarrow>
          (Inr (),
           w\<lparr>procs := (procs w)(p \<mapsto>
                c\<lparr>pstate := (case pstate c of Running \<Rightarrow> Zombie (- 9) | Zombie rc \<Rightarrow> Zombie rc)\<rparr>),
             trace := trace w @ [ESignal p]\<rparr>))"

text \<open>
  \<open>Popen.kill()\<close>, that is \<open>send_signal(SIGKILL)\<close>: poll first, do nothing for a child
  known to have completed, and suppress \<open>ProcessLookupError\<close> from \<open>os.kill\<close>.
\<close>

definition Popen_kill :: "nat \<Rightarrow> unit io" where
  "Popen_kill p w =
     (case poll p w of
        (Inl e, w1) \<Rightarrow> (Inl e, w1)
      | (Inr rc, w1) \<Rightarrow>
          (if rc \<noteq> None then (Inr (), w1)
           else (case os_kill p w1 of
                   (Inl e, w2) \<Rightarrow> if is_ProcessLookupError e then (Inr (), w2) else (Inl e, w2)
                 | (Inr u, w2) \<Rightarrow> (Inr (), w2))))"

subsection \<open>Time and the network\<close>

text \<open>\<open>time.time()\<close> reads the field \<open>clock\<close>; \<open>time.sleep(secs)\<close> moves it on.\<close>

definition sleep :: "real \<Rightarrow> unit io" where
  "sleep secs w =
     (Inr (),
      w\<lparr>clock := clock w + secs + oversleep w (n_sleep w),
        n_sleep := Suc (n_sleep w),
        trace := trace w @ [ESleep secs]\<rparr>)"

record request =
  url :: string
  proxy_host :: string
  proxy_type :: string

definition Request :: "string \<Rightarrow> request" where
  "Request u = \<lparr>url = u, proxy_host = '''', proxy_type = ''''\<rparr>"

definition set_proxy :: "request \<Rightarrow> string \<Rightarrow> string \<Rightarrow> request" where
  "set_proxy r h t = r\<lparr>proxy_host := h, proxy_type := t\<rparr>"

text \<open>
  \<open>urllib.request.urlopen(req, None, timeout)\<close>: the k-th call takes \<open>dur\<close> and either
  returns a response or raises, as the environment decides. A failure to connect is
  raised as \<open>URLError\<close> and an error status as \<open>HTTPError\<close>; an error while the
  response is read (the peer closes the connection, the read times out) is raised as it
  is, and is no \<open>URLError\<close>.
\<close>

definition urlopen :: "request \<Rightarrow> real \<Rightarrow> response io" where
  "urlopen req tmo w =
     (outcome (net w (n_req w)),
      w\<lparr>clock := clock w + dur (net w (n_req w)),
        n_req := Suc (n_req w),
        trace := trace w @ [EUrlopen (url req) (proxy_host req) tmo]\<rparr>)"

subsection \<open>Files\<close>

text \<open>
  \<open>with open(p, "r") as f: f.read()\<close>; \<open>open(p, "w")\<close>, which truncates or creates the
  file; and \<open>f.write(s)\<close> on a file opened for writing, which appends to what was
  written since.
\<close>

definition read_text :: "string \<Rightarrow> string io" where
  "read_text p w =
     (case files w p of
        None \<Rightarrow> (Inl (FileNotFoundError p), w)
      | Some c \<Rightarrow> (Inr c, w\<lparr>trace := trace w @ [ERead p]\<rparr>))"

definition open_w :: "string \<Rightarrow> unit io" where
  "open_w p w =
     (case open_w_err w p of
        Some e \<Rightarrow> (Inl e, w)
      | None \<Rightarrow> (Inr (), w\<lparr>files := (files w)(p \<mapsto> ''''), trace := trace w @ [ETruncate p]\<rparr>))"

definition fwrite :: "string \<Rightarrow> string \<Rightarrow> unit io" where
  "fwrite p s w =
     (Inr (),
      w\<lparr>files := (files w)(p \<mapsto> (case files w p of None \<Rightarrow> s | Some c \<Rightarrow> c @ s)),
        trace := trace w @ [EWrite p s]\<rparr>)"

section \<open>The wrapper: class PypiProxy\<close>

record handle =
  h_env :: "string \<rightharpoonup> string"
  port :: nat
  proc :: nat
  cafile :: ppath

definition find_free_port :: "nat io" where
  "find_free_port = seq bind_any (\<lambda>port. seq (sock_close port) (\<lambda>_. ret port))"

text \<open>
  The loop of \<open>wait\<close>. The \<open>finally\<close> clause runs on each of the three ways out of the
  \<open>try\<close> block: a response (with or without \<open>break\<close>), a caught \<open>URLError\<close>, and an
  exception of another class, which goes on to the caller after the sleep.
\<close>

partial_function (option) wait_loop ::
  "real \<Rightarrow> request \<Rightarrow> world \<Rightarrow> ((exn + unit) \<times> world) option" where
  "wait_loop deadline req w =
     (if clock w < deadline then
        (case urlopen req 5 w of
           (Inr res, w1) \<Rightarrow>
             (if status res < 400
              then Some (Inr (), snd (sleep 1 w1))
              else wait_loop deadline req (snd (sleep 1 w1)))
         | (Inl e, w1) \<Rightarrow>
             (if is_URLError e
              then wait_loop deadline req (snd (sleep 1 w1))
              else Some (Inl e, snd (sleep 1 w1))))
      else Some (Inr (), w))"

definition wait :: "nat \<Rightarrow> string \<Rightarrow> real \<Rightarrow> world \<Rightarrow> ((exn + unit) \<times> world) option" where
  "wait self_port test_url timeout w =
     (let deadline = clock w + timeout;
          req = set_proxy (Request test_url) (''127.0.0.1:'' @ str_nat self_port) ''http''
      in wait_loop deadline req w)"

definition generate_ca_bundle :: "(string \<rightharpoonup> string) \<Rightarrow> string \<Rightarrow> ppath io" where
  "generate_ca_bundle self_env path =
     (case self_env ''HOME'' of
        None \<Rightarrow> raise (KeyError ''HOME'')
      | Some hs \<Rightarrow>
          (let home = Path hs;
               path' = truediv home path
           in seq (read_text (str_path (truediv home ''.mitmproxy/mitmproxy-ca-cert.pem'')))
                (\<lambda>mitmproxy_cacert.
              seq (\<lambda>w. read_text (certifi_where w) w)
                (\<lambda>certifi_cacert.
              seq (open_w (str_path path'))
                (\<lambda>_.
              seq (fwrite (str_path path') mitmproxy_cacert)
                (\<lambda>_.
              seq (fwrite (str_path path') [CHR 0x0A])
                (\<lambda>_.
              seq (fwrite (str_path path') certifi_cacert)
                (\<lambda>_. ret path'))))))))"

definition init ::
  "string \<Rightarrow> string list \<Rightarrow> (string \<rightharpoonup> string) \<Rightarrow> world \<Rightarrow> ((exn + handle) \<times> world) option" where
  "init executable args env w =
     (case find_free_port w of
        (Inl e, w1) \<Rightarrow> Some (Inl e, w1)
      | (Inr self_port, w1) \<Rightarrow>
          (case Popen ([executable, ''--listen-port'', str_nat self_port, ''--anticache''] @ args)
                  ParentStderr ParentStderr env w1 of
             (Inl e, w2) \<Rightarrow> Some (Inl e, w2)
           | (Inr self_proc, w2) \<Rightarrow>
               (case wait self_port ''http://pypi.org'' 10 w2 of
                  None \<Rightarrow> None
                | Some (Inl e, w3) \<Rightarrow> Some (Inl e, w3)
                | Some (Inr u, w3) \<Rightarrow>
                    (case generate_ca_bundle env ''.ca-cert.pem'' w3 of
                       (Inl e, w4) \<Rightarrow> Some (Inl e, w4)
                     | (Inr self_cafile, w4) \<Rightarrow>
                         Some (Inr \<lparr>h_env = env, port = self_port, proc = self_proc,
                                    cafile = self_cafile\<rparr>, w4)))))"

definition kill :: "handle \<Rightarrow> unit io" where
  "kill self = Popen_kill (proc self)"

section \<open>Vocabulary of the statements\<close>

text \<open>One iteration of the loop of \<open>wait\<close> that does not leave it: the request, then the sleep.\<close>

definition one_round :: "request \<Rightarrow> world \<Rightarrow> world" where
  "one_round req w = snd (sleep 1 (snd (urlopen req 5 w)))"

text \<open>
  By how much the clock advances in the i-th iteration from now: the time the request
  takes, the second slept, and the overshoot of the sleep.
\<close>

definition iteration_advance :: "world \<Rightarrow> nat \<Rightarrow> real" where
  "iteration_advance w i = dur (net w (n_req w + i)) + (1 + oversleep w (n_sleep w + i))"

text \<open>The world after n iterations of the loop.\<close>

definition after_rounds :: "request \<Rightarrow> nat \<Rightarrow> world \<Rightarrow> world" where
  "after_rounds req n w =
     w\<lparr>clock := clock w + (\<Sum>i<n. iteration_advance w i),
       n_req := n_req w + n,
       n_sleep := n_sleep w + n,
       trace := trace w @ concat (replicate n [EUrlopen (url req) (proxy_host req) 5, ESleep 1])\<rparr>"

text \<open>
  An attempt that the loop absorbs (a response, or an exception that the \<open>except\<close>
  clause catches), and an attempt after which the loop goes on.
\<close>

fun swallowed :: "exn + response \<Rightarrow> bool" where
  "swallowed (Inl e) = is_URLError e"
| "swallowed (Inr res) = True"

fun retried :: "exn + response \<Rightarrow> bool" where
  "retried (Inl e) = is_URLError e"
| "retried (Inr res) = (\<not> status res < 400)"

text \<open>The world once the port is found and the child runs.\<close>

definition spawned :: "string \<Rightarrow> string list \<Rightarrow> (string \<rightharpoonup> string) \<Rightarrow> nat \<Rightarrow> world \<Rightarrow> world" where
  "spawned executable args env p w =
     w\<lparr>procs := (procs w)(next_pid w \<mapsto>
          \<lparr>argv = [executable, ''--listen-port'', str_nat p, ''--anticache''] @ args, penv = env,
           stdout_to = ParentStderr, stderr_to = ParentStderr, pstate = Running\<rparr>),
       returncode := (returncode w)(next_pid w := None),
       next_pid := Suc (next_pid w),
       trace := trace w @ [EBind p, EClose p,
                 ESpawn (next_pid w) ([executable, ''--listen-port'', str_nat p, ''--anticache''] @ args)]\<rparr>"

definition poll_request :: "nat \<Rightarrow> string \<Rightarrow> request" where
  "poll_request p u = set_proxy (Request u) (''127.0.0.1:'' @ str_nat p) ''http''"

fun is_spawn :: "event \<Rightarrow> bool" where
  "is_spawn (ESpawn p a) = True"
| "is_spawn _ = False"

fun is_write :: "event \<Rightarrow> bool" where
  "is_write (ETruncate p) = True"
| "is_write (EWrite p s) = True"
| "is_write _ = False"

section \<open>Example worlds\<close>

text \<open>
  A build directory as home, the proxy's certificate and the system bundle in place, an
  older merged bundle on disk, and a proxy that refuses two connections before it
  answers 200.
\<close>

definition demo_env :: "string \<rightharpoonup> string" where
  "demo_env = [''HOME'' \<mapsto> ''/build'']"

definition demo_world :: world where
  "demo_world =
     \<lparr>clock = 0,
      files = [''/build/.mitmproxy/mitmproxy-ca-cert.pem'' \<mapsto> ''MITM'',
               ''/nix/cacert.pem'' \<mapsto> ''SYSTEM'',
               ''/build/.ca-cert.pem'' \<mapsto> ''OLD''],
      procs = Map.empty,
      returncode = Map.empty,
      trace = [],
      n_req = 0,
      n_sleep = 0,
      ephemeral = Inr 8080,
      exec_err = (\<lambda>x. None),
      next_pid = 4242,
      net = (\<lambda>k. \<lparr>dur = 0,
                   outcome = (if k < 2 then Inl (URLError ''refused'') else Inr \<lparr>status = 200\<rparr>)\<rparr>),
      oversleep = (\<lambda>k. 0),
      open_w_err = (\<lambda>x. None),
      certifi_where = ''/nix/cacert.pem''\<rparr>"

text \<open>The same world with a proxy that accepts each connection and closes it unanswered.\<close>

definition disconnecting_world :: world where
  "disconnecting_world = demo_world\<lparr>net := (\<lambda>k. \<lparr>dur = 0, outcome = Inl RemoteDisconnected\<rparr>)\<rparr>"

section \<open>The loop of wait\<close>

lemma one_round_eq: "one_round req w = after_rounds req (Suc 0) w"
  by (simp add: one_round_def after_rounds_def sleep_def urlopen_def iteration_advance_def)

lemma iteration_advance_round:
  "iteration_advance (after_rounds req n w) i = iteration_advance w (n + i)"
  by (simp add: after_rounds_def iteration_advance_def add.assoc)

lemma after_rounds_0: "after_rounds req 0 w = w"
  by (simp add: after_rounds_def)

lemma after_rounds_Suc:
  "after_rounds req n (after_rounds req (Suc 0) w) = after_rounds req (Suc n) w"
proof -
  have "(\<Sum>i<Suc n. iteration_advance w i)
          = iteration_advance w 0 + (\<Sum>i<n. iteration_advance w (Suc i))"
    by (rule sum.lessThan_Suc_shift)
  then show ?thesis
    by (simp add: after_rounds_def iteration_advance_def)
qed

lemma after_rounds_fields:
  "clock (after_rounds req n w) = clock w + (\<Sum>i<n. iteration_advance w i)"
  "n_req (after_rounds req n w) = n_req w + n"
  "n_sleep (after_rounds req n w) = n_sleep w + n"
  "net (after_rounds req n w) = net w"
  "files (after_rounds req n w) = files w"
  "procs (after_rounds req n w) = procs w"
  "certifi_where (after_rounds req n w) = certifi_where w"
  "open_w_err (after_rounds req n w) = open_w_err w"
  "trace (after_rounds req n w)
     = trace w @ concat (replicate n [EUrlopen (url req) (proxy_host req) 5, ESleep 1])"
  by (simp_all add: after_rounds_def)

lemma wait_loop_unfold:
  "wait_loop d req w =
     (if clock w < d then
        (case outcome (net w (n_req w)) of
           Inr res \<Rightarrow> if status res < 400 then Some (Inr (), one_round req w)
                      else wait_loop d req (one_round req w)
         | Inl e \<Rightarrow> if is_URLError e then wait_loop d req (one_round req w)
                    else Some (Inl e, one_round req w))
      else Some (Inr (), w))"
  by (subst wait_loop.simps) (simp add: one_round_def urlopen_def split: sum.splits)

lemma clock_one_round: "clock (one_round req w) = clock w + iteration_advance w 0"
  by (simp add: one_round_eq after_rounds_def)

lemma budget_shrinks:
  assumes "clock w < d" and "1 \<le> iteration_advance w 0"
  shows "nat \<lceil>d - clock (one_round req w)\<rceil> < nat \<lceil>d - clock w\<rceil>"
proof -
  have "\<lceil>d - clock (one_round req w)\<rceil> \<le> \<lceil>d - clock w - 1\<rceil>"
    using assms(2) by (intro ceiling_mono) (simp add: clock_one_round)
  moreover have "0 < \<lceil>d - clock w\<rceil>" using assms(1) by simp
  ultimately show ?thesis by simp
qed

lemma wait_loop_terminates:
  assumes "\<forall>i. 1 \<le> iteration_advance w i"
  shows "\<exists>y. wait_loop d req w = Some y"
  using assms
proof (induction "nat \<lceil>d - clock w\<rceil>" arbitrary: w rule: less_induct)
  case less
  show ?case
  proof (cases "clock w < d")
    case False
    then show ?thesis by (subst wait_loop_unfold) simp
  next
    case True
    have "1 \<le> iteration_advance w 0" using less.prems by blast
    then have m: "nat \<lceil>d - clock (one_round req w)\<rceil> < nat \<lceil>d - clock w\<rceil>"
      using True by (intro budget_shrinks)
    have "\<forall>i. 1 \<le> iteration_advance (one_round req w) i"
      using less.prems by (simp add: one_round_eq iteration_advance_round)
    from less.hyps[OF m this] obtain y where "wait_loop d req (one_round req w) = Some y"
      by blast
    then show ?thesis
      by (subst wait_loop_unfold) (simp add: True split: sum.splits)
  qed
qed

text \<open>Rule induction over the runs of the loop that return.\<close>

lemma wait_loop_cases [consumes 1, case_names exit break raised retry]:
  assumes "wait_loop d req w = Some y"
    and "\<And>w. \<not> clock w < d \<Longrightarrow> P w (Inr (), w)"
    and "\<And>w res. clock w < d \<Longrightarrow> outcome (net w (n_req w)) = Inr res \<Longrightarrow> status res < 400
           \<Longrightarrow> P w (Inr (), one_round req w)"
    and "\<And>w e. clock w < d \<Longrightarrow> outcome (net w (n_req w)) = Inl e \<Longrightarrow> \<not> is_URLError e
           \<Longrightarrow> P w (Inl e, one_round req w)"
    and "\<And>w y. clock w < d \<Longrightarrow> retried (outcome (net w (n_req w))) \<Longrightarrow> P (one_round req w) y
           \<Longrightarrow> P w y"
  shows "P w y"
proof -
  have "d = d \<longrightarrow> req = req \<longrightarrow> P w y"
  proof (rule wait_loop.raw_induct
      [where P = "\<lambda>d' req' w y. d' = d \<longrightarrow> req' = req \<longrightarrow> P w y", OF _ assms(1)], goal_cases)
    case (1 loop d' req' w y)
    show ?case
    proof (intro impI)
      assume eq: "d' = d" "req' = req"
      show "P w y"
      proof (cases "clock w < d")
        case False
        with 1(2) eq have "y = (Inr (), w)" by simp
        with False assms(2) show ?thesis by simp
      next
        case True
        show ?thesis
        proof (cases "outcome (net w (n_req w))")
          case (Inl e)
          show ?thesis
          proof (cases "is_URLError e")
            case uerr: True
            with 1(2) eq True Inl have "loop d req (one_round req w) = Some y"
              by (simp add: urlopen_def one_round_def)
            from 1(1)[OF this] have "P (one_round req w) y" by simp
            with assms(5)[of w y] True Inl uerr show ?thesis by simp
          next
            case False
            with 1(2) eq True Inl have "y = (Inl e, one_round req w)"
              by (simp add: urlopen_def one_round_def)
            with assms(4)[of w e] True Inl False show ?thesis by simp
          qed
        next
          case (Inr res)
          show ?thesis
          proof (cases "status res < 400")
            case ok: True
            with 1(2) eq True Inr have "y = (Inr (), one_round req w)"
              by (simp add: urlopen_def one_round_def)
            with assms(3)[of w res] True Inr ok show ?thesis by simp
          next
            case False
            with 1(2) eq True Inr have "loop d req (one_round req w) = Some y"
              by (simp add: urlopen_def one_round_def)
            from 1(1)[OF this] have "P (one_round req w) y" by simp
            with assms(5)[of w y] True Inr False show ?thesis by simp
          qed
        qed
      qed
    qed
  qed
  then show ?thesis by simp
qed

lemma wait_loop_shape:
  assumes "wait_loop d req w = Some y"
  shows "\<exists>n. snd y = after_rounds req n w \<and> (clock w < d \<longrightarrow> 0 < n)"
  using assms
proof (induction rule: wait_loop_cases)
  case (exit w)
  show ?case by (rule exI[of _ 0]) (simp add: after_rounds_0 exit)
next
  case (break w res)
  show ?case by (rule exI[of _ "Suc 0"]) (simp add: one_round_eq)
next
  case (raised w e)
  show ?case by (rule exI[of _ "Suc 0"]) (simp add: one_round_eq)
next
  case (retry w y)
  then obtain n where "snd y = after_rounds req n (one_round req w)" by blast
  then show ?case
    by (intro exI[of _ "Suc n"]) (simp add: one_round_eq after_rounds_Suc)
qed

lemma wait_loop_no_raise:
  assumes "wait_loop d req w = Some y" and "\<forall>k. swallowed (outcome (net w k))"
  shows "fst y = Inr ()"
  using assms
proof (induction rule: wait_loop_cases)
  case (raised w e)
  then have "swallowed (Inl e)" by metis
  with raised show ?case by simp
next
  case (retry w y)
  then show ?case by (simp add: one_round_eq after_rounds_def)
qed simp_all

lemma wait_loop_attempts:
  assumes "wait_loop d req w = Some y" and "\<forall>i. 1 \<le> iteration_advance w i"
  shows "n_req (snd y) \<le> n_req w + nat \<lceil>d - clock w\<rceil>"
  using assms
proof (induction rule: wait_loop_cases)
  case (exit w)
  then show ?case by simp
next
  case (break w res)
  then have "0 < \<lceil>d - clock w\<rceil>" by simp
  then have "Suc 0 \<le> nat \<lceil>d - clock w\<rceil>" by linarith
  then show ?case by (simp add: one_round_eq after_rounds_def)
next
  case (raised w e)
  then have "0 < \<lceil>d - clock w\<rceil>" by simp
  then have "Suc 0 \<le> nat \<lceil>d - clock w\<rceil>" by linarith
  then show ?case by (simp add: one_round_eq after_rounds_def)
next
  case (retry w y)
  have "1 \<le> iteration_advance w 0" using retry.prems by blast
  then have m: "nat \<lceil>d - clock (one_round req w)\<rceil> < nat \<lceil>d - clock w\<rceil>"
    using retry.hyps by (intro budget_shrinks)
  have "\<forall>i. 1 \<le> iteration_advance (one_round req w) i"
    using retry.prems by (simp add: one_round_eq iteration_advance_round)
  with retry.IH
  have "n_req (snd y) \<le> n_req (one_round req w) + nat \<lceil>d - clock (one_round req w)\<rceil>"
    by blast
  moreover have "n_req (one_round req w) = Suc (n_req w)"
    by (simp add: one_round_eq after_rounds_def)
  ultimately show ?case using m by linarith
qed

lemma wait_loop_exhausted:
  assumes "wait_loop d req w = Some y" and "\<forall>k. retried (outcome (net w k))"
  shows "fst y = Inr () \<and> d \<le> clock (snd y)"
  using assms
proof (induction rule: wait_loop_cases)
  case (exit w)
  then show ?case by simp
next
  case (break w res)
  then have "retried (Inr res)" by metis
  with break show ?case by simp
next
  case (raised w e)
  then have "retried (Inl e)" by metis
  with raised show ?case by simp
next
  case (retry w y)
  then show ?case by (simp add: one_round_eq after_rounds_def)
qed

lemma wait_loop_retry:
  assumes "clock w < d" and "retried (outcome (net w (n_req w)))"
  shows "wait_loop d req w = wait_loop d req (after_rounds req (Suc 0) w)"
  using assms
  by (subst wait_loop_unfold) (auto simp add: one_round_eq split: sum.splits)

lemma wait_loop_break:
  assumes "clock w < d" and "outcome (net w (n_req w)) = Inr res" and "status res < 400"
  shows "wait_loop d req w = Some (Inr (), after_rounds req (Suc 0) w)"
  using assms
  by (subst wait_loop_unfold) (simp add: one_round_eq)

lemma wait_loop_raise:
  assumes "clock w < d" and "outcome (net w (n_req w)) = Inl e" and "\<not> is_URLError e"
  shows "wait_loop d req w = Some (Inl e, after_rounds req (Suc 0) w)"
  using assms
  by (subst wait_loop_unfold) (simp add: one_round_eq)

lemma wait_loop_succeeds_at:
  assumes "\<forall>i<n. retried (outcome (net w (n_req w + i)))"
    and "outcome (net w (n_req w + n)) = Inr res" and "status res < 400"
    and "\<forall>i\<le>n. clock (after_rounds req i w) < d"
  shows "wait_loop d req w = Some (Inr (), after_rounds req (Suc n) w)"
  using assms
proof (induction n arbitrary: w)
  case 0
  then show ?case by (simp add: wait_loop_break after_rounds_0)
next
  case (Suc n)
  let ?w1 = "after_rounds req (Suc 0) w"
  have now: "clock w < d" using Suc.prems(4)[rule_format, of 0] by (simp add: after_rounds_0)
  have first: "retried (outcome (net w (n_req w)))" using Suc.prems(1)[rule_format, of 0] by simp
  have a: "\<forall>i<n. retried (outcome (net ?w1 (n_req ?w1 + i)))"
  proof (intro allI impI)
    fix i assume "i < n"
    then have "Suc i < Suc n" by simp
    from Suc.prems(1)[rule_format, OF this]
    show "retried (outcome (net ?w1 (n_req ?w1 + i)))" by (simp add: after_rounds_fields)
  qed
  have b: "outcome (net ?w1 (n_req ?w1 + n)) = Inr res"
    using Suc.prems(2) by (simp add: after_rounds_fields)
  have c: "\<forall>i\<le>n. clock (after_rounds req i ?w1) < d"
  proof (intro allI impI)
    fix i assume "i \<le> n"
    then have "clock (after_rounds req (Suc i) w) < d" using Suc.prems(4) by simp
    then show "clock (after_rounds req i ?w1) < d" by (simp only: after_rounds_Suc)
  qed
  have "wait_loop d req w = wait_loop d req ?w1" using now first by (rule wait_loop_retry)
  also have "\<dots> = Some (Inr (), after_rounds req (Suc n) ?w1)"
    using a b Suc.prems(3) c by (rule Suc.IH)
  finally show ?case by (simp only: after_rounds_Suc)
qed

lemma rounds_no_spawn:
  "filter is_spawn (concat (replicate n [EUrlopen a b c, ESleep s])) = []"
  by (induction n) simp_all

lemma rounds_no_write:
  "filter is_write (concat (replicate n [EUrlopen a b c, ESleep s])) = []"
  by (induction n) simp_all

lemma wait_eq: "wait p u t w = wait_loop (clock w + t) (poll_request p u) w"
  by (simp add: wait_def poll_request_def Let_def)

lemma wait_returns:
  assumes "\<forall>i. 1 \<le> iteration_advance w i" and "\<forall>k. swallowed (outcome (net w k))"
  shows "\<exists>n. wait p u t w = Some (Inr (), after_rounds (poll_request p u) n w)
           \<and> (0 < t \<longrightarrow> 0 < n) \<and> n \<le> nat \<lceil>t\<rceil>"
proof -
  obtain y where y: "wait_loop (clock w + t) (poll_request p u) w = Some y"
    using wait_loop_terminates[OF assms(1)] by blast
  from wait_loop_shape[OF y] obtain n
    where n: "snd y = after_rounds (poll_request p u) n w" "clock w < clock w + t \<longrightarrow> 0 < n"
    by blast
  have "fst y = Inr ()" using wait_loop_no_raise[OF y assms(2)] .
  with n(1) have "y = (Inr (), after_rounds (poll_request p u) n w)"
    by (cases y) simp
  moreover have "n \<le> nat \<lceil>t\<rceil>"
    using wait_loop_attempts[OF y assms(1)] n(1) by (simp add: after_rounds_def)
  ultimately show ?thesis using y n(2) by (auto simp add: wait_eq)
qed

lemma is_URLError_iff: "is_URLError e \<longleftrightarrow> (\<exists>s. e = URLError s) \<or> (\<exists>c. e = HTTPError c)"
  by (cases e) simp_all

lemma retried_swallowed: "retried x \<Longrightarrow> swallowed x"
  by (cases x) simp_all

text \<open>
  The verdict of a run of the loop that returns: it returns normally exactly when every
  attempt it made was absorbed, and otherwise raises what its last attempt raised.
\<close>

lemma wait_loop_verdict:
  assumes "wait_loop d req w = Some y"
  shows "(fst y = Inr () \<longleftrightarrow>
            (\<forall>k. n_req w \<le> k \<and> k < n_req (snd y) \<longrightarrow> swallowed (outcome (net w k))))
         \<and> (\<forall>e. fst y = Inl e \<longrightarrow>
               \<not> is_URLError e \<and> n_req w < n_req (snd y)
               \<and> outcome (net w (n_req (snd y) - 1)) = Inl e)"
  using assms
proof (induction rule: wait_loop_cases)
  case (exit w)
  show ?case by auto
next
  case (break w res)
  have eq: "\<And>k. n_req w \<le> k \<and> k < Suc (n_req w) \<longleftrightarrow> k = n_req w" by auto
  from break show ?case
    by (simp add: one_round_eq after_rounds_fields eq)
next
  case (raised w e)
  have eq: "\<And>k. n_req w \<le> k \<and> k < Suc (n_req w) \<longleftrightarrow> k = n_req w" by auto
  from raised show ?case
    by (simp add: one_round_eq after_rounds_fields eq)
next
  case (retry w y)
  let ?w1 = "one_round req w"
  have f: "n_req ?w1 = Suc (n_req w)" "net ?w1 = net w"
    by (simp_all add: one_round_eq after_rounds_fields)
  have first: "swallowed (outcome (net w (n_req w)))"
    using retry.hyps(2) by (rule retried_swallowed)
  have range: "(\<forall>k. n_req w \<le> k \<and> k < n_req (snd y) \<longrightarrow> swallowed (outcome (net w k)))
            \<longleftrightarrow> (\<forall>k. Suc (n_req w) \<le> k \<and> k < n_req (snd y) \<longrightarrow> swallowed (outcome (net w k)))"
  proof
    assume "\<forall>k. n_req w \<le> k \<and> k < n_req (snd y) \<longrightarrow> swallowed (outcome (net w k))"
    then show "\<forall>k. Suc (n_req w) \<le> k \<and> k < n_req (snd y) \<longrightarrow> swallowed (outcome (net w k))"
      by simp
  next
    assume a: "\<forall>k. Suc (n_req w) \<le> k \<and> k < n_req (snd y) \<longrightarrow> swallowed (outcome (net w k))"
    show "\<forall>k. n_req w \<le> k \<and> k < n_req (snd y) \<longrightarrow> swallowed (outcome (net w k))"
    proof (intro allI impI)
      fix k assume k: "n_req w \<le> k \<and> k < n_req (snd y)"
      show "swallowed (outcome (net w k))"
      proof (cases "k = n_req w")
        case True
        with first show ?thesis by simp
      next
        case False
        with k have "Suc (n_req w) \<le> k \<and> k < n_req (snd y)" by simp
        with a show ?thesis by blast
      qed
    qed
  qed
  from retry.IH show ?case
    unfolding f range by auto
qed

section \<open>Paths and bundle generation\<close>

lemma is_absolute_Path: "is_absolute (Path s) \<longleftrightarrow> take 1 s = ''/''"
  by (cases s) (auto simp add: is_absolute_def Path_def splitroot_def)

lemma is_absolute_truediv:
  "is_absolute (truediv p s) \<longleftrightarrow> is_absolute (Path s) \<or> is_absolute p"
  by (auto simp add: truediv_def is_absolute_def Let_def)

lemma generate_ca_bundle_ok:
  assumes "env ''HOME'' = Some hs"
    and "files w (str_path (truediv (Path hs) ''.mitmproxy/mitmproxy-ca-cert.pem'')) = Some a"
    and "files w (certifi_where w) = Some b"
    and "open_w_err w (str_path (truediv (Path hs) path)) = None"
  shows "generate_ca_bundle env path w =
           (Inr (truediv (Path hs) path),
            w\<lparr>files := (files w)(str_path (truediv (Path hs) path) \<mapsto> a @ [CHR 0x0A] @ b),
              trace := trace w @
                [ERead (str_path (truediv (Path hs) ''.mitmproxy/mitmproxy-ca-cert.pem'')),
                 ERead (certifi_where w),
                 ETruncate (str_path (truediv (Path hs) path)),
                 EWrite (str_path (truediv (Path hs) path)) a,
                 EWrite (str_path (truediv (Path hs) path)) [CHR 0x0A],
                 EWrite (str_path (truediv (Path hs) path)) b]\<rparr>)"
  using assms
  by (simp add: generate_ca_bundle_def seq_def read_text_def open_w_def fwrite_def ret_def Let_def)

lemma generate_ca_bundle_no_home:
  assumes "env ''HOME'' = None"
  shows "generate_ca_bundle env path w = (Inl (KeyError ''HOME''), w)"
  using assms by (simp add: generate_ca_bundle_def raise_def)

lemma generate_ca_bundle_no_ca:
  assumes "env ''HOME'' = Some hs"
    and "files w (str_path (truediv (Path hs) ''.mitmproxy/mitmproxy-ca-cert.pem'')) = None"
  shows "generate_ca_bundle env path w =
           (Inl (FileNotFoundError
                   (str_path (truediv (Path hs) ''.mitmproxy/mitmproxy-ca-cert.pem''))), w)"
  using assms by (simp add: generate_ca_bundle_def seq_def read_text_def Let_def)

lemma generate_ca_bundle_Inr:
  assumes "generate_ca_bundle env path w = (Inr c, w')"
  shows "\<exists>hs a b. env ''HOME'' = Some hs
           \<and> files w (str_path (truediv (Path hs) ''.mitmproxy/mitmproxy-ca-cert.pem'')) = Some a
           \<and> files w (certifi_where w) = Some b
           \<and> open_w_err w (str_path (truediv (Path hs) path)) = None"
  using assms
  by (auto simp add: generate_ca_bundle_def seq_def read_text_def open_w_def raise_def Let_def
      split: option.splits)

section \<open>The constructor and the kill\<close>

lemma spawned_fields:
  "iteration_advance (spawned exe args env p w) i = iteration_advance w i"
  "net (spawned exe args env p w) = net w"
  "clock (spawned exe args env p w) = clock w"
  "n_req (spawned exe args env p w) = n_req w"
  "files (spawned exe args env p w) = files w"
  by (simp_all add: spawned_def iteration_advance_def)

lemma spawned_more_fields:
  "procs (spawned exe args env p w) = (procs w)(next_pid w \<mapsto>
      \<lparr>argv = [exe, ''--listen-port'', str_nat p, ''--anticache''] @ args, penv = env,
       stdout_to = ParentStderr, stderr_to = ParentStderr, pstate = Running\<rparr>)"
  "trace (spawned exe args env p w) = trace w @
      [EBind p, EClose p, ESpawn (next_pid w) ([exe, ''--listen-port'', str_nat p, ''--anticache''] @ args)]"
  "certifi_where (spawned exe args env p w) = certifi_where w"
  "open_w_err (spawned exe args env p w) = open_w_err w"
  by (simp_all add: spawned_def)

lemma init_spawned:
  assumes "ephemeral w = Inr p" and "exec_err w exe = None"
  shows "init exe args env w =
           (case wait p ''http://pypi.org'' 10 (spawned exe args env p w) of
              None \<Rightarrow> None
            | Some (Inl e, w3) \<Rightarrow> Some (Inl e, w3)
            | Some (Inr u, w3) \<Rightarrow>
                (case generate_ca_bundle env ''.ca-cert.pem'' w3 of
                   (Inl e, w4) \<Rightarrow> Some (Inl e, w4)
                 | (Inr c, w4) \<Rightarrow>
                     Some (Inr \<lparr>h_env = env, port = p, proc = next_pid w, cafile = c\<rparr>, w4)))"
  using assms
  by (simp add: init_def find_free_port_def seq_def bind_any_def sock_close_def ret_def
      Popen_def spawned_def)

lemma init_Inr:
  assumes "init exe args env w = Some (Inr h, w')"
  shows "ephemeral w = Inr (port h) \<and> exec_err w exe = None \<and> proc h = next_pid w \<and> h_env h = env"
  using assms
  by (auto simp add: init_def find_free_port_def seq_def bind_any_def sock_close_def ret_def
      Popen_def split: sum.splits option.splits prod.splits)

lemma init_polled:
  assumes "ephemeral w = Inr p" and "exec_err w exe = None"
    and "\<forall>i. 1 \<le> iteration_advance w i" and "\<forall>k. swallowed (outcome (net w k))"
  shows "\<exists>n. 0 < n \<and> n \<le> 10 \<and>
           init exe args env w =
             (case generate_ca_bundle env ''.ca-cert.pem''
                     (after_rounds (poll_request p ''http://pypi.org'') n (spawned exe args env p w)) of
                (Inl e, w4) \<Rightarrow> Some (Inl e, w4)
              | (Inr c, w4) \<Rightarrow>
                  Some (Inr \<lparr>h_env = env, port = p, proc = next_pid w, cafile = c\<rparr>, w4))"
proof -
  let ?w2 = "spawned exe args env p w"
  have "\<forall>i. 1 \<le> iteration_advance ?w2 i" "\<forall>k. swallowed (outcome (net ?w2 k))"
    using assms(3,4) by (simp_all add: spawned_fields)
  from wait_returns[OF this, of p "''http://pypi.org''" 10] obtain n
    where "wait p ''http://pypi.org'' 10 ?w2
             = Some (Inr (), after_rounds (poll_request p ''http://pypi.org'') n ?w2)"
      and "0 < n" and "n \<le> 10"
    by auto
  then show ?thesis
    by (intro exI[of _ n]) (simp add: init_spawned[OF assms(1,2)])
qed

text \<open>What a run of the constructor that returns a handle has done.\<close>

lemma init_Inr_world:
  assumes "init exe args env w = Some (Inr h, w')"
  shows "\<exists>n hs a b. 0 < n \<and> env ''HOME'' = Some hs
           \<and> files w (str_path (truediv (Path hs) ''.mitmproxy/mitmproxy-ca-cert.pem'')) = Some a
           \<and> files w (certifi_where w) = Some b
           \<and> h = \<lparr>h_env = env, port = port h, proc = next_pid w,
                   cafile = truediv (Path hs) ''.ca-cert.pem''\<rparr>
           \<and> w' = (after_rounds (poll_request (port h) ''http://pypi.org'') n
                      (spawned exe args env (port h) w))
                  \<lparr>files := (files w)(str_path (truediv (Path hs) ''.ca-cert.pem'')
                               \<mapsto> a @ [CHR 0x0A] @ b),
                    trace := trace w @
                      [EBind (port h), EClose (port h),
                       ESpawn (next_pid w)
                         ([exe, ''--listen-port'', str_nat (port h), ''--anticache''] @ args)] @
                      concat (replicate n
                        [EUrlopen ''http://pypi.org'' (''127.0.0.1:'' @ str_nat (port h)) 5,
                         ESleep 1]) @
                      [ERead (str_path (truediv (Path hs) ''.mitmproxy/mitmproxy-ca-cert.pem'')),
                       ERead (certifi_where w),
                       ETruncate (str_path (truediv (Path hs) ''.ca-cert.pem'')),
                       EWrite (str_path (truediv (Path hs) ''.ca-cert.pem'')) a,
                       EWrite (str_path (truediv (Path hs) ''.ca-cert.pem'')) [CHR 0x0A],
                       EWrite (str_path (truediv (Path hs) ''.ca-cert.pem'')) b]\<rparr>"
proof -
  let ?p = "port h"
  let ?w2 = "spawned exe args env ?p w"
  let ?req = "poll_request ?p ''http://pypi.org''"
  from init_Inr[OF assms]
  have eph: "ephemeral w = Inr ?p" and ex: "exec_err w exe = None"
    and hp: "proc h = next_pid w" and he: "h_env h = env"
    by simp_all
  from assms obtain w3 c
    where w3: "wait ?p ''http://pypi.org'' 10 ?w2 = Some (Inr (), w3)"
      and gen: "generate_ca_bundle env ''.ca-cert.pem'' w3 = (Inr c, w')"
      and hc: "\<lparr>h_env = env, port = ?p, proc = next_pid w, cafile = c\<rparr> = h"
    unfolding init_spawned[OF eph ex]
    by (auto split: option.splits sum.splits prod.splits)
  from w3 have "wait_loop (clock ?w2 + 10) ?req ?w2 = Some (Inr (), w3)" by (simp add: wait_eq)
  from wait_loop_shape[OF this] obtain n where n: "w3 = after_rounds ?req n ?w2" "0 < n"
    by auto
  from generate_ca_bundle_Inr[OF gen] obtain hs a b
    where home: "env ''HOME'' = Some hs"
      and ca: "files w3 (str_path (truediv (Path hs) ''.mitmproxy/mitmproxy-ca-cert.pem'')) = Some a"
      and sys: "files w3 (certifi_where w3) = Some b"
      and wr: "open_w_err w3 (str_path (truediv (Path hs) ''.ca-cert.pem'')) = None"
    by blast
  from generate_ca_bundle_ok[where env = env and path = "''.ca-cert.pem''", OF home ca sys wr] gen
  have c: "c = truediv (Path hs) ''.ca-cert.pem''"
    and w': "w' = w3\<lparr>files := (files w3)(str_path (truediv (Path hs) ''.ca-cert.pem'')
                               \<mapsto> a @ [CHR 0x0A] @ b),
                     trace := trace w3 @
                       [ERead (str_path (truediv (Path hs) ''.mitmproxy/mitmproxy-ca-cert.pem'')),
                        ERead (certifi_where w3),
                        ETruncate (str_path (truediv (Path hs) ''.ca-cert.pem'')),
                        EWrite (str_path (truediv (Path hs) ''.ca-cert.pem'')) a,
                        EWrite (str_path (truediv (Path hs) ''.ca-cert.pem'')) [CHR 0x0A],
                        EWrite (str_path (truediv (Path hs) ''.ca-cert.pem'')) b]\<rparr>"
    by simp_all
  have h: "h = \<lparr>h_env = env, port = ?p, proc = next_pid w, cafile = truediv (Path hs) ''.ca-cert.pem''\<rparr>"
    using hc c by simp
  have f3: "files w3 = files w" "certifi_where w3 = certifi_where w"
    by (simp_all add: n(1) after_rounds_fields spawned_fields spawned_more_fields)
  have t3: "trace w3 = trace w @
              [EBind ?p, EClose ?p,
               ESpawn (next_pid w) ([exe, ''--listen-port'', str_nat ?p, ''--anticache''] @ args)] @
              concat (replicate n
                [EUrlopen ''http://pypi.org'' (''127.0.0.1:'' @ str_nat ?p) 5, ESleep 1])"
    by (simp add: n(1) after_rounds_fields spawned_more_fields poll_request_def set_proxy_def
        Request_def)
  have "w' = w3\<lparr>files := (files w)(str_path (truediv (Path hs) ''.ca-cert.pem'')
                               \<mapsto> a @ [CHR 0x0A] @ b),
                   trace := trace w @
                      [EBind ?p, EClose ?p,
                       ESpawn (next_pid w)
                         ([exe, ''--listen-port'', str_nat ?p, ''--anticache''] @ args)] @
                      concat (replicate n
                        [EUrlopen ''http://pypi.org'' (''127.0.0.1:'' @ str_nat ?p) 5,
                         ESleep 1]) @
                      [ERead (str_path (truediv (Path hs) ''.mitmproxy/mitmproxy-ca-cert.pem'')),
                       ERead (certifi_where w),
                       ETruncate (str_path (truediv (Path hs) ''.ca-cert.pem'')),
                       EWrite (str_path (truediv (Path hs) ''.ca-cert.pem'')) a,
                       EWrite (str_path (truediv (Path hs) ''.ca-cert.pem'')) [CHR 0x0A],
                       EWrite (str_path (truediv (Path hs) ''.ca-cert.pem'')) b]\<rparr>"
    by (subst w') (simp add: f3 t3)
  then have final: "w' = (after_rounds ?req n ?w2)
                  \<lparr>files := (files w)(str_path (truediv (Path hs) ''.ca-cert.pem'')
                               \<mapsto> a @ [CHR 0x0A] @ b),
                   trace := trace w @
                      [EBind ?p, EClose ?p,
                       ESpawn (next_pid w)
                         ([exe, ''--listen-port'', str_nat ?p, ''--anticache''] @ args)] @
                      concat (replicate n
                        [EUrlopen ''http://pypi.org'' (''127.0.0.1:'' @ str_nat ?p) 5,
                         ESleep 1]) @
                      [ERead (str_path (truediv (Path hs) ''.mitmproxy/mitmproxy-ca-cert.pem'')),
                       ERead (certifi_where w),
                       ETruncate (str_path (truediv (Path hs) ''.ca-cert.pem'')),
                       EWrite (str_path (truediv (Path hs) ''.ca-cert.pem'')) a,
                       EWrite (str_path (truediv (Path hs) ''.ca-cert.pem'')) [CHR 0x0A],
                       EWrite (str_path (truediv (Path hs) ''.ca-cert.pem'')) b]\<rparr>"
    unfolding n(1) .
  from ca sys have "files w (str_path (truediv (Path hs) ''.mitmproxy/mitmproxy-ca-cert.pem'')) = Some a"
    and "files w (certifi_where w) = Some b"
    by (simp_all add: f3)
  with n(2) home h final show ?thesis by blast
qed

lemma Popen_kill_ok: "fst (Popen_kill p w) = Inr ()"
  by (simp add: Popen_kill_def poll_def os_kill_def split: option.splits pstate.splits)

section \<open>Facts about the example worlds\<close>

lemma demo_fields:
  "clock demo_world = 0"
  "n_req demo_world = 0"
  "n_sleep demo_world = 0"
  "oversleep demo_world k = 0"
  "ephemeral demo_world = Inr 8080"
  "exec_err demo_world x = None"
  "next_pid demo_world = 4242"
  "open_w_err demo_world x = None"
  "certifi_where demo_world = ''/nix/cacert.pem''"
  "trace demo_world = []"
  "iteration_advance demo_world i = 1"
  "outcome (net demo_world k) = (if k < 2 then Inl (URLError ''refused'') else Inr \<lparr>status = 200\<rparr>)"
  by (simp_all add: demo_world_def iteration_advance_def)

lemma demo_files:
  "files demo_world ''/build/.mitmproxy/mitmproxy-ca-cert.pem'' = Some ''MITM''"
  "files demo_world ''/nix/cacert.pem'' = Some ''SYSTEM''"
  "files demo_world ''/build/.ca-cert.pem'' = Some ''OLD''"
  by (simp_all add: demo_world_def)

lemma demo_home: "demo_env ''HOME'' = Some ''/build''"
  by (simp add: demo_env_def)

lemma demo_paths:
  "str_path (truediv (Path ''/build'') ''.mitmproxy/mitmproxy-ca-cert.pem'')
     = ''/build/.mitmproxy/mitmproxy-ca-cert.pem''"
  "str_path (truediv (Path ''/build'') ''.ca-cert.pem'') = ''/build/.ca-cert.pem''"
  by (simp_all add: str_path_def truediv_def Path_def splitroot_def Let_def)

lemma demo_time: "\<forall>i. 1 \<le> iteration_advance demo_world i"
  by (simp add: demo_fields)

lemma demo_swallowed: "\<forall>k. swallowed (outcome (net demo_world k))"
  by (simp add: demo_fields)

lemma demo_poll:
  "wait 8080 ''http://pypi.org'' 10 (spawned ''mitmdump'' args demo_env 8080 demo_world)
     = Some (Inr (), after_rounds (poll_request 8080 ''http://pypi.org'') 3
                       (spawned ''mitmdump'' args demo_env 8080 demo_world))"
proof -
  let ?w = "spawned ''mitmdump'' args demo_env 8080 demo_world"
  let ?req = "poll_request 8080 ''http://pypi.org''"
  have "wait_loop (clock ?w + 10) ?req ?w = Some (Inr (), after_rounds ?req (Suc 2) ?w)"
  proof (rule wait_loop_succeeds_at)
    show "\<forall>i<2. retried (outcome (net ?w (n_req ?w + i)))"
      by (simp add: spawned_fields demo_fields)
    show "outcome (net ?w (n_req ?w + 2)) = Inr \<lparr>status = 200\<rparr>"
      by (simp add: spawned_fields demo_fields)
    show "status \<lparr>status = 200\<rparr> < 400" by simp
    show "\<forall>i\<le>2. clock (after_rounds ?req i ?w) < clock ?w + 10"
      by (simp add: after_rounds_fields spawned_fields demo_fields)
  qed
  then show ?thesis by (simp add: wait_eq)
qed

lemma demo_init:
  "\<exists>w'. init ''mitmdump'' args demo_env demo_world =
          Some (Inr \<lparr>h_env = demo_env, port = 8080, proc = 4242,
                     cafile = truediv (Path ''/build'') ''.ca-cert.pem''\<rparr>, w')"
proof -
  let ?w3 = "after_rounds (poll_request 8080 ''http://pypi.org'') 3
               (spawned ''mitmdump'' args demo_env 8080 demo_world)"
  have f: "files ?w3 = files demo_world" "certifi_where ?w3 = certifi_where demo_world"
    "open_w_err ?w3 = open_w_err demo_world"
    by (simp_all add: after_rounds_fields spawned_fields spawned_more_fields)
  have "\<exists>w'. generate_ca_bundle demo_env ''.ca-cert.pem'' ?w3
           = (Inr (truediv (Path ''/build'') ''.ca-cert.pem''), w')"
    by (subst generate_ca_bundle_ok[where hs = "''/build''" and a = "''MITM''" and b = "''SYSTEM''"])
      (simp_all add: f demo_home demo_paths demo_files demo_fields)
  then show ?thesis
    by (auto simp add: init_spawned[where p = 8080] demo_fields demo_poll)
qed

lemma disconnecting_fields:
  "clock disconnecting_world = 0"
  "n_req disconnecting_world = 0"
  "ephemeral disconnecting_world = Inr 8080"
  "exec_err disconnecting_world x = None"
  "outcome (net disconnecting_world k) = Inl RemoteDisconnected"
  by (simp_all add: disconnecting_world_def demo_world_def)

lemma disconnecting_wait:
  "wait 8080 ''http://pypi.org'' 10 disconnecting_world
     = Some (Inl RemoteDisconnected,
             after_rounds (poll_request 8080 ''http://pypi.org'') (Suc 0) disconnecting_world)"
proof -
  have "wait_loop (clock disconnecting_world + 10) (poll_request 8080 ''http://pypi.org'')
          disconnecting_world
        = Some (Inl RemoteDisconnected,
                after_rounds (poll_request 8080 ''http://pypi.org'') (Suc 0) disconnecting_world)"
    by (rule wait_loop_raise) (simp_all add: disconnecting_fields)
  then show ?thesis by (simp add: wait_eq)
qed

section \<open>Claims\<close>

text \<open>
  C1. Given the proxy's certificate \<open>a\<close> and the system bundle \<open>b\<close>,
  \<open>generate_ca_bundle\<close> leaves the output file holding \<open>a\<close>, one newline and \<open>b\<close>,
  whatever the file held before: the file is truncated when it is opened and the three
  writes follow; no other file changes.
\<close>

theorem generate_ca_bundle_content:
  assumes "env ''HOME'' = Some hs"
    and "files w (str_path (truediv (Path hs) ''.mitmproxy/mitmproxy-ca-cert.pem'')) = Some a"
    and "files w (certifi_where w) = Some b"
    and "open_w_err w (str_path (truediv (Path hs) path)) = None"
  shows "\<exists>w'. generate_ca_bundle env path w = (Inr (truediv (Path hs) path), w')
           \<and> files w' = (files w)(str_path (truediv (Path hs) path) \<mapsto> a @ [CHR 0x0A] @ b)
           \<and> trace w' = trace w @
                [ERead (str_path (truediv (Path hs) ''.mitmproxy/mitmproxy-ca-cert.pem'')),
                 ERead (certifi_where w),
                 ETruncate (str_path (truediv (Path hs) path)),
                 EWrite (str_path (truediv (Path hs) path)) a,
                 EWrite (str_path (truediv (Path hs) path)) [CHR 0x0A],
                 EWrite (str_path (truediv (Path hs) path)) b]"
  by (simp add: generate_ca_bundle_ok[where env = env and path = path, OF assms])

theorem generate_ca_bundle_content_witness:
  "\<exists>w'. generate_ca_bundle demo_env ''.ca-cert.pem'' demo_world
           = (Inr \<lparr>proot = ''/'', pparts = [''build'', ''.ca-cert.pem'']\<rparr>, w')
      \<and> files demo_world ''/build/.ca-cert.pem'' = Some ''OLD''
      \<and> files w' ''/build/.ca-cert.pem'' = Some (''MITM'' @ [CHR 0x0A] @ ''SYSTEM'')"
proof -
  have h1: "demo_env ''HOME'' = Some ''/build''" by (simp add: demo_env_def)
  have h2: "files demo_world (str_path (truediv (Path ''/build'') ''.mitmproxy/mitmproxy-ca-cert.pem''))
              = Some ''MITM''"
    by (simp add: demo_paths demo_files)
  have h3: "files demo_world (certifi_where demo_world) = Some ''SYSTEM''"
    by (simp add: demo_fields demo_files)
  have h4: "open_w_err demo_world (str_path (truediv (Path ''/build'') ''.ca-cert.pem'')) = None"
    by (simp add: demo_fields)
  have p: "truediv (Path ''/build'') ''.ca-cert.pem'' = \<lparr>proot = ''/'', pparts = [''build'', ''.ca-cert.pem'']\<rparr>"
    by (simp add: truediv_def Path_def splitroot_def Let_def)
  from generate_ca_bundle_content[where env = demo_env and path = "''.ca-cert.pem''", OF h1 h2 h3 h4]
  show ?thesis by (auto simp add: demo_paths demo_files p str_path_def)
qed

text \<open>
  C2. With the home directory set and the proxy's certificate absent,
  \<open>generate_ca_bundle\<close> raises \<open>FileNotFoundError\<close> and leaves the world as it was; and
  the constructor, once the port is found, the child runs and the poll has returned, fails
  with that error, with every file as before and nothing opened for writing.
\<close>

theorem missing_ca_certificate:
  assumes "env ''HOME'' = Some hs"
    and "files w (str_path (truediv (Path hs) ''.mitmproxy/mitmproxy-ca-cert.pem'')) = None"
    and "ephemeral w = Inr p" and "exec_err w exe = None"
    and "\<forall>i. 1 \<le> iteration_advance w i" and "\<forall>k. swallowed (outcome (net w k))"
  shows "generate_ca_bundle env path w =
           (Inl (FileNotFoundError
                   (str_path (truediv (Path hs) ''.mitmproxy/mitmproxy-ca-cert.pem''))), w)
         \<and> (\<exists>w'. init exe args env w =
                    Some (Inl (FileNotFoundError
                      (str_path (truediv (Path hs) ''.mitmproxy/mitmproxy-ca-cert.pem''))), w')
                \<and> files w' = files w
                \<and> filter is_write (trace w') = filter is_write (trace w))"
proof
  show "generate_ca_bundle env path w =
          (Inl (FileNotFoundError
                  (str_path (truediv (Path hs) ''.mitmproxy/mitmproxy-ca-cert.pem''))), w)"
    using assms(1,2) by (rule generate_ca_bundle_no_ca)
next
  from init_polled[OF assms(3-6), of args env] obtain n
    where run: "init exe args env w =
             (case generate_ca_bundle env ''.ca-cert.pem''
                     (after_rounds (poll_request p ''http://pypi.org'') n (spawned exe args env p w)) of
                (Inl e, w4) \<Rightarrow> Some (Inl e, w4)
              | (Inr c, w4) \<Rightarrow>
                  Some (Inr \<lparr>h_env = env, port = p, proc = next_pid w, cafile = c\<rparr>, w4))"
    by blast
  let ?w3 = "after_rounds (poll_request p ''http://pypi.org'') n (spawned exe args env p w)"
  have f3: "files ?w3 = files w" by (simp add: after_rounds_fields spawned_fields)
  have "generate_ca_bundle env ''.ca-cert.pem'' ?w3 =
          (Inl (FileNotFoundError
                  (str_path (truediv (Path hs) ''.mitmproxy/mitmproxy-ca-cert.pem''))), ?w3)"
    using assms(1,2) by (intro generate_ca_bundle_no_ca) (simp_all add: f3)
  with run have "init exe args env w =
      Some (Inl (FileNotFoundError
                  (str_path (truediv (Path hs) ''.mitmproxy/mitmproxy-ca-cert.pem''))), ?w3)"
    by simp
  moreover have "filter is_write (trace ?w3) = filter is_write (trace w)"
    by (simp add: after_rounds_fields spawned_more_fields rounds_no_write)
  ultimately show "\<exists>w'. init exe args env w =
                    Some (Inl (FileNotFoundError
                      (str_path (truediv (Path hs) ''.mitmproxy/mitmproxy-ca-cert.pem''))), w')
                \<and> files w' = files w
                \<and> filter is_write (trace w') = filter is_write (trace w)"
    using f3 by blast
qed

theorem missing_ca_certificate_witness:
  "\<exists>w'. init ''mitmdump'' [] demo_env (demo_world\<lparr>files := [''/nix/cacert.pem'' \<mapsto> ''SYSTEM'']\<rparr>)
           = Some (Inl (FileNotFoundError ''/build/.mitmproxy/mitmproxy-ca-cert.pem''), w')
      \<and> files w' = [''/nix/cacert.pem'' \<mapsto> ''SYSTEM'']"
proof -
  let ?w = "demo_world\<lparr>files := [''/nix/cacert.pem'' \<mapsto> ''SYSTEM'']\<rparr>"
  have h1: "demo_env ''HOME'' = Some ''/build''" by (simp add: demo_env_def)
  have h2: "files ?w (str_path (truediv (Path ''/build'') ''.mitmproxy/mitmproxy-ca-cert.pem'')) = None"
    by (simp add: demo_paths)
  have h3: "ephemeral ?w = Inr 8080" by (simp add: demo_fields)
  have h4: "exec_err ?w ''mitmdump'' = None" by (simp add: demo_fields)
  have h5: "\<forall>i. 1 \<le> iteration_advance ?w i"
    using demo_time by (simp add: iteration_advance_def)
  have h6: "\<forall>k. swallowed (outcome (net ?w k))"
    using demo_swallowed by simp
  from missing_ca_certificate[where env = demo_env and args = "[]" and path = "''.ca-cert.pem''",
      OF h1 h2 h3 h4 h5 h6]
  show ?thesis by (auto simp add: demo_paths)
qed

text \<open>
  C3. As stated the claim fails: the \<open>except\<close> clause names \<open>URLError\<close> only, so an
  attempt that raises anything else (here the proxy closes the connection unanswered)
  ends the constructor with that exception.
\<close>

theorem readiness_poll_raises_counterexample:
  "map_option fst (init ''mitmdump'' [] demo_env disconnecting_world)
     = Some (Inl RemoteDisconnected)"
proof -
  let ?w2 = "spawned ''mitmdump'' [] demo_env 8080 disconnecting_world"
  have "wait_loop (clock ?w2 + 10) (poll_request 8080 ''http://pypi.org'') ?w2
          = Some (Inl RemoteDisconnected,
                  after_rounds (poll_request 8080 ''http://pypi.org'') (Suc 0) ?w2)"
    by (rule wait_loop_raise) (simp_all add: spawned_fields disconnecting_fields)
  then show ?thesis
    by (simp add: init_spawned[where p = 8080] disconnecting_fields wait_eq)
qed

text \<open>
  C3, amended. The loop absorbs exactly the exceptions of class \<open>URLError\<close>, that is
  \<open>URLError\<close> and its subclass \<open>HTTPError\<close>. When every iteration advances the clock
  by at least the sleep interval and every attempt either returns a response or raises
  such an exception, \<open>wait\<close> returns without raising, whether some attempt succeeds or
  none does; and the constructor then returns a handle when the port is found, the child
  runs and the two certificate files can be read and the bundle written. An exception of
  any other class is not caught: a run of \<open>wait\<close> that returns does so normally exactly
  when every attempt it made returned a response or raised an exception of class
  \<open>URLError\<close>, and otherwise it raises what its last attempt raised; in particular,
  when the first attempt raises an exception of another class, \<open>wait\<close> raises it, and
  so does the constructor once the port is found and the child runs.
\<close>

theorem readiness_poll_swallows_URLError:
  "(is_URLError x \<longleftrightarrow> (\<exists>s. x = URLError s) \<or> (\<exists>c. x = HTTPError c))
   \<and> (swallowed o' \<longleftrightarrow> (\<exists>res. o' = Inr res) \<or> (\<exists>s. o' = Inl (URLError s))
                              \<or> (\<exists>c. o' = Inl (HTTPError c)))
   \<and> ((\<forall>i. 1 \<le> iteration_advance w i) \<and> (\<forall>k. swallowed (outcome (net w k))) \<longrightarrow>
        (\<exists>w'. wait p u t w = Some (Inr (), w'))
        \<and> (ephemeral w = Inr p \<and> exec_err w exe = None \<and> env ''HOME'' = Some hs
             \<and> files w (str_path (truediv (Path hs) ''.mitmproxy/mitmproxy-ca-cert.pem'')) = Some a
             \<and> files w (certifi_where w) = Some b
             \<and> open_w_err w (str_path (truediv (Path hs) ''.ca-cert.pem'')) = None
           \<longrightarrow> (\<exists>h w'. init exe args env w = Some (Inr h, w'))))
   \<and> (wait p u t v = Some (r, v') \<longrightarrow>
        (r = Inr () \<longleftrightarrow>
           (\<forall>k. n_req v \<le> k \<and> k < n_req v' \<longrightarrow> swallowed (outcome (net v k))))
        \<and> (\<forall>e'. r = Inl e' \<longrightarrow>
              \<not> is_URLError e' \<and> n_req v < n_req v'
              \<and> outcome (net v (n_req v' - 1)) = Inl e'))
   \<and> (0 < t \<and> outcome (net v (n_req v)) = Inl e \<and> \<not> is_URLError e \<longrightarrow>
        (\<exists>v'. wait p u t v = Some (Inl e, v'))
        \<and> (ephemeral v = Inr p \<and> exec_err v exe = None
           \<longrightarrow> (\<exists>v'. init exe args env v = Some (Inl e, v'))))"
proof (intro conjI impI)
  show "is_URLError x \<longleftrightarrow> (\<exists>s. x = URLError s) \<or> (\<exists>c. x = HTTPError c)"
    by (rule is_URLError_iff)
next
  show "swallowed o' \<longleftrightarrow> (\<exists>res. o' = Inr res) \<or> (\<exists>s. o' = Inl (URLError s))
                              \<or> (\<exists>c. o' = Inl (HTTPError c))"
    by (cases o') (auto simp add: is_URLError_iff)
next
  assume "(\<forall>i. 1 \<le> iteration_advance w i) \<and> (\<forall>k. swallowed (outcome (net w k)))"
  then have tm: "\<forall>i. 1 \<le> iteration_advance w i" and sw: "\<forall>k. swallowed (outcome (net w k))"
    by simp_all
  show "\<exists>w'. wait p u t w = Some (Inr (), w')"
    using wait_returns[OF tm sw, of p u t] by blast
next
  assume "(\<forall>i. 1 \<le> iteration_advance w i) \<and> (\<forall>k. swallowed (outcome (net w k)))"
  then have tm: "\<forall>i. 1 \<le> iteration_advance w i" and sw: "\<forall>k. swallowed (outcome (net w k))"
    by simp_all
  assume ok: "ephemeral w = Inr p \<and> exec_err w exe = None \<and> env ''HOME'' = Some hs
    \<and> files w (str_path (truediv (Path hs) ''.mitmproxy/mitmproxy-ca-cert.pem'')) = Some a
    \<and> files w (certifi_where w) = Some b
    \<and> open_w_err w (str_path (truediv (Path hs) ''.ca-cert.pem'')) = None"
  then have eph: "ephemeral w = Inr p" and ex: "exec_err w exe = None" by simp_all
  from init_polled[OF eph ex tm sw, of args env] obtain n
    where run: "init exe args env w =
             (case generate_ca_bundle env ''.ca-cert.pem''
                     (after_rounds (poll_request p ''http://pypi.org'') n (spawned exe args env p w)) of
                (Inl e, w4) \<Rightarrow> Some (Inl e, w4)
              | (Inr c, w4) \<Rightarrow>
                  Some (Inr \<lparr>h_env = env, port = p, proc = next_pid w, cafile = c\<rparr>, w4))"
    by blast
  let ?w3 = "after_rounds (poll_request p ''http://pypi.org'') n (spawned exe args env p w)"
  have "\<exists>w'. generate_ca_bundle env ''.ca-cert.pem'' ?w3
           = (Inr (truediv (Path hs) ''.ca-cert.pem''), w')"
    using ok
    by (subst generate_ca_bundle_ok[where hs = hs and a = a and b = b])
      (simp_all add: after_rounds_fields spawned_fields spawned_more_fields)
  with run show "\<exists>h w'. init exe args env w = Some (Inr h, w')" by auto
next
  assume "wait p u t v = Some (r, v')"
  then have run: "wait_loop (clock v + t) (poll_request p u) v = Some (r, v')"
    by (simp add: wait_eq)
  from wait_loop_verdict[OF run]
  show "r = Inr () \<longleftrightarrow>
           (\<forall>k. n_req v \<le> k \<and> k < n_req v' \<longrightarrow> swallowed (outcome (net v k)))"
    by simp
  from wait_loop_verdict[OF run]
  show "\<forall>e'. r = Inl e' \<longrightarrow>
              \<not> is_URLError e' \<and> n_req v < n_req v'
              \<and> outcome (net v (n_req v' - 1)) = Inl e'"
    by simp
next
  assume a: "0 < t \<and> outcome (net v (n_req v)) = Inl e \<and> \<not> is_URLError e"
  then have "wait_loop (clock v + t) (poll_request p u) v
               = Some (Inl e, after_rounds (poll_request p u) (Suc 0) v)"
    by (intro wait_loop_raise) simp_all
  then show "\<exists>v'. wait p u t v = Some (Inl e, v')" by (simp add: wait_eq)
next
  assume a: "0 < t \<and> outcome (net v (n_req v)) = Inl e \<and> \<not> is_URLError e"
  assume "ephemeral v = Inr p \<and> exec_err v exe = None"
  then have eph: "ephemeral v = Inr p" and ex: "exec_err v exe = None" by simp_all
  let ?v2 = "spawned exe args env p v"
  have "wait_loop (clock ?v2 + 10) (poll_request p ''http://pypi.org'') ?v2
          = Some (Inl e, after_rounds (poll_request p ''http://pypi.org'') (Suc 0) ?v2)"
    using a by (intro wait_loop_raise) (simp_all add: spawned_fields)
  then show "\<exists>v'. init exe args env v = Some (Inl e, v')"
    by (simp add: init_spawned[OF eph ex] wait_eq)
qed

theorem readiness_poll_swallows_URLError_witness:
  "(\<exists>w'. wait 8080 ''http://pypi.org'' 10 demo_world = Some (Inr (), w'))
   \<and> (\<exists>h w'. init ''mitmdump'' [] demo_env demo_world = Some (Inr h, w'))
   \<and> wait 8080 ''http://pypi.org'' 10 disconnecting_world
        = Some (Inl RemoteDisconnected,
                after_rounds (poll_request 8080 ''http://pypi.org'') (Suc 0) disconnecting_world)
   \<and> \<not> swallowed (outcome (net disconnecting_world 0))
   \<and> (\<exists>v'. init ''mitmdump'' [] demo_env disconnecting_world = Some (Inl RemoteDisconnected, v'))"
proof -
  let ?v' = "after_rounds (poll_request 8080 ''http://pypi.org'') (Suc 0) disconnecting_world"
  note claim = readiness_poll_swallows_URLError[where w = demo_world and v = disconnecting_world
      and v' = ?v' and p = 8080 and u = "''http://pypi.org''" and t = 10 and exe = "''mitmdump''"
      and args = "[]" and env = demo_env and hs = "''/build''" and a = "''MITM''"
      and b = "''SYSTEM''" and e = RemoteDisconnected and r = "Inl RemoteDisconnected"
      and x = RemoteDisconnected and o' = "Inl RemoteDisconnected"]
  note absorbed = claim[THEN conjunct2, THEN conjunct2, THEN conjunct1]
  note verdict = claim[THEN conjunct2, THEN conjunct2, THEN conjunct2, THEN conjunct1]
  note foreign = claim[THEN conjunct2, THEN conjunct2, THEN conjunct2, THEN conjunct2]
  have good: "(\<forall>i. 1 \<le> iteration_advance demo_world i)
                \<and> (\<forall>k. swallowed (outcome (net demo_world k)))"
    using demo_time demo_swallowed by simp
  have ok: "ephemeral demo_world = Inr 8080 \<and> exec_err demo_world ''mitmdump'' = None
    \<and> demo_env ''HOME'' = Some ''/build''
    \<and> files demo_world (str_path (truediv (Path ''/build'') ''.mitmproxy/mitmproxy-ca-cert.pem''))
        = Some ''MITM''
    \<and> files demo_world (certifi_where demo_world) = Some ''SYSTEM''
    \<and> open_w_err demo_world (str_path (truediv (Path ''/build'') ''.ca-cert.pem'')) = None"
    by (simp add: demo_fields demo_home demo_paths demo_files)
  have bad: "(0::real) < 10
               \<and> outcome (net disconnecting_world (n_req disconnecting_world)) = Inl RemoteDisconnected
               \<and> \<not> is_URLError RemoteDisconnected"
    by (simp add: disconnecting_fields)
  have started: "ephemeral disconnecting_world = Inr 8080
                   \<and> exec_err disconnecting_world ''mitmdump'' = None"
    by (simp add: disconnecting_fields)
  note a1 = absorbed[THEN mp, OF good]
  have p1: "\<exists>w'. wait 8080 ''http://pypi.org'' 10 demo_world = Some (Inr (), w')"
    by (rule a1[THEN conjunct1])
  have p2: "\<exists>h w'. init ''mitmdump'' [] demo_env demo_world = Some (Inr h, w')"
    by (rule a1[THEN conjunct2, THEN mp, OF ok])
  note v1 = verdict[THEN mp, OF disconnecting_wait]
  have "(Inl RemoteDisconnected = (Inr () :: exn + unit)) \<longleftrightarrow>
          (\<forall>k. n_req disconnecting_world \<le> k \<and> k < n_req ?v'
               \<longrightarrow> swallowed (outcome (net disconnecting_world k)))"
    by (rule v1[THEN conjunct1])
  then have p3: "\<not> swallowed (outcome (net disconnecting_world 0))"
    by (simp add: after_rounds_fields disconnecting_fields)
  note f1 = foreign[THEN mp, OF bad]
  have p4: "\<exists>v'. init ''mitmdump'' [] demo_env disconnecting_world
                   = Some (Inl RemoteDisconnected, v')"
    by (rule f1[THEN conjunct2, THEN mp, OF started])
  from p1 p2 disconnecting_wait p3 p4 show ?thesis by (intro conjI)
qed

text \<open>
  C4. A constructor run that returns a handle has bound the port recorded on the handle,
  and has spawned exactly one child, whose argument vector is the executable,
  \<open>--listen-port\<close>, the decimal port, \<open>--anticache\<close> and then the caller's arguments in
  their order, with the caller's environment and both output streams on the parent's
  standard error.
\<close>

theorem start_spawns_child:
  assumes "init exe args env w = Some (Inr h, w')"
  shows "ephemeral w = Inr (port h)
         \<and> filter is_spawn (trace w') = filter is_spawn (trace w) @
             [ESpawn (proc h) ([exe, ''--listen-port'', str_nat (port h), ''--anticache''] @ args)]
         \<and> procs w' (proc h) = Some
             \<lparr>argv = [exe, ''--listen-port'', str_nat (port h), ''--anticache''] @ args,
              penv = env, stdout_to = ParentStderr, stderr_to = ParentStderr, pstate = Running\<rparr>"
proof -
  from init_Inr[OF assms] have eph: "ephemeral w = Inr (port h)" and hp: "proc h = next_pid w"
    by simp_all
  from init_Inr_world[OF assms] obtain n hs a b
    where w': "w' = (after_rounds (poll_request (port h) ''http://pypi.org'') n
                      (spawned exe args env (port h) w))
                  \<lparr>files := (files w)(str_path (truediv (Path hs) ''.ca-cert.pem'')
                               \<mapsto> a @ [CHR 0x0A] @ b),
                    trace := trace w @
                      [EBind (port h), EClose (port h),
                       ESpawn (next_pid w)
                         ([exe, ''--listen-port'', str_nat (port h), ''--anticache''] @ args)] @
                      concat (replicate n
                        [EUrlopen ''http://pypi.org'' (''127.0.0.1:'' @ str_nat (port h)) 5,
                         ESleep 1]) @
                      [ERead (str_path (truediv (Path hs) ''.mitmproxy/mitmproxy-ca-cert.pem'')),
                       ERead (certifi_where w),
                       ETruncate (str_path (truediv (Path hs) ''.ca-cert.pem'')),
                       EWrite (str_path (truediv (Path hs) ''.ca-cert.pem'')) a,
                       EWrite (str_path (truediv (Path hs) ''.ca-cert.pem'')) [CHR 0x0A],
                       EWrite (str_path (truediv (Path hs) ''.ca-cert.pem'')) b]\<rparr>"
    by blast
  have "filter is_spawn (trace w') = filter is_spawn (trace w) @
          [ESpawn (proc h) ([exe, ''--listen-port'', str_nat (port h), ''--anticache''] @ args)]"
    by (subst w') (simp add: rounds_no_spawn hp)
  moreover have "procs w' (proc h) = Some
             \<lparr>argv = [exe, ''--listen-port'', str_nat (port h), ''--anticache''] @ args,
              penv = env, stdout_to = ParentStderr, stderr_to = ParentStderr, pstate = Running\<rparr>"
    by (subst w') (simp add: after_rounds_fields spawned_more_fields hp)
  ultimately show ?thesis using eph by simp
qed

theorem start_spawns_child_witness:
  "\<exists>w'. init ''mitmdump'' [''--quiet'', ''-s'', ''filter.py''] demo_env demo_world =
          Some (Inr \<lparr>h_env = demo_env, port = 8080, proc = 4242,
                     cafile = truediv (Path ''/build'') ''.ca-cert.pem''\<rparr>, w')
      \<and> ephemeral demo_world = Inr 8080
      \<and> filter is_spawn (trace w') =
          [ESpawn 4242 [''mitmdump'', ''--listen-port'', ''8080'', ''--anticache'',
                        ''--quiet'', ''-s'', ''filter.py'']]
      \<and> map_option argv (procs w' 4242) =
          Some [''mitmdump'', ''--listen-port'', ''8080'', ''--anticache'',
                ''--quiet'', ''-s'', ''filter.py'']"
proof -
  from demo_init[of "[''--quiet'', ''-s'', ''filter.py'']"] obtain w'
    where run: "init ''mitmdump'' [''--quiet'', ''-s'', ''filter.py''] demo_env demo_world =
          Some (Inr \<lparr>h_env = demo_env, port = 8080, proc = 4242,
                     cafile = truediv (Path ''/build'') ''.ca-cert.pem''\<rparr>, w')"
    by blast
  have s: "str_nat 8080 = ''8080''" by (simp add: str_nat.simps digit_def)
  from start_spawns_child[OF run] run show ?thesis
    by (intro exI[of _ w']) (simp add: s demo_fields)
qed

text \<open>
  C5. When every iteration advances the clock by at least the sleep interval, \<open>wait\<close>
  with a budget of 10 returns, after at most 10 attempts, whatever the attempts do; it
  returns without raising when every failure is one that the loop absorbs; and when no
  attempt ever succeeds it returns normally with the whole budget elapsed.
\<close>

theorem readiness_poll_terminates:
  assumes "\<forall>i. 1 \<le> iteration_advance w i"
  shows "\<exists>r w'. wait p u 10 w = Some (r, w')
           \<and> n_req w' \<le> n_req w + 10
           \<and> ((\<forall>k. swallowed (outcome (net w k))) \<longrightarrow> r = Inr ())
           \<and> ((\<forall>k. retried (outcome (net w k))) \<longrightarrow> r = Inr () \<and> clock w + 10 \<le> clock w')"
proof -
  obtain y where y: "wait_loop (clock w + 10) (poll_request p u) w = Some y"
    using wait_loop_terminates[OF assms] by blast
  have "n_req (snd y) \<le> n_req w + 10"
    using wait_loop_attempts[OF y assms] by simp
  moreover have "(\<forall>k. swallowed (outcome (net w k))) \<longrightarrow> fst y = Inr ()"
    using wait_loop_no_raise[OF y] by blast
  moreover have "(\<forall>k. retried (outcome (net w k)))
                   \<longrightarrow> fst y = Inr () \<and> clock w + 10 \<le> clock (snd y)"
    using wait_loop_exhausted[OF y] by blast
  ultimately show ?thesis
    using y by (cases y) (simp add: wait_eq)
qed

theorem readiness_poll_terminates_witness:
  "\<exists>w'. wait 8080 ''http://pypi.org'' 10
           (demo_world\<lparr>net := (\<lambda>k. \<lparr>dur = 0, outcome = Inl (URLError ''refused'')\<rparr>)\<rparr>)
        = Some (Inr (), w')
      \<and> n_req w' \<le> 10 \<and> 10 \<le> clock w'"
proof -
  let ?w = "demo_world\<lparr>net := (\<lambda>k. \<lparr>dur = 0, outcome = Inl (URLError ''refused'')\<rparr>)\<rparr>"
  have h1: "\<forall>i. 1 \<le> iteration_advance ?w i"
    by (simp add: iteration_advance_def demo_world_def)
  have h2: "\<forall>k. swallowed (outcome (net ?w k))" by simp
  have h3: "\<forall>k. retried (outcome (net ?w k))" by simp
  from readiness_poll_terminates[OF h1, of 8080 "''http://pypi.org''"] h2 h3
  show ?thesis by (auto simp add: demo_fields)
qed

text \<open>
  C6. Once the port is found and the child runs, and whatever the poll saw (a success on
  some attempt or none within the budget), the constructor goes on to
  \<open>generate_ca_bundle\<close> on the files as they were: its result is the result of the
  bundle generation, and on success the path returned is the \<open>cafile\<close> of the handle.
\<close>

theorem start_generates_bundle:
  assumes "ephemeral w = Inr p" and "exec_err w exe = None"
    and "\<forall>i. 1 \<le> iteration_advance w i" and "\<forall>k. swallowed (outcome (net w k))"
  shows "\<exists>w3. files w3 = files w \<and> certifi_where w3 = certifi_where w
           \<and> open_w_err w3 = open_w_err w
           \<and> init exe args env w =
               Some (case generate_ca_bundle env ''.ca-cert.pem'' w3 of
                       (Inl e, w4) \<Rightarrow> (Inl e, w4)
                     | (Inr c, w4) \<Rightarrow>
                         (Inr \<lparr>h_env = env, port = p, proc = next_pid w, cafile = c\<rparr>, w4))"
proof -
  from init_polled[OF assms, of args env] obtain n
    where run: "init exe args env w =
             (case generate_ca_bundle env ''.ca-cert.pem''
                     (after_rounds (poll_request p ''http://pypi.org'') n (spawned exe args env p w)) of
                (Inl e, w4) \<Rightarrow> Some (Inl e, w4)
              | (Inr c, w4) \<Rightarrow>
                  Some (Inr \<lparr>h_env = env, port = p, proc = next_pid w, cafile = c\<rparr>, w4))"
    by blast
  let ?w3 = "after_rounds (poll_request p ''http://pypi.org'') n (spawned exe args env p w)"
  have "init exe args env w =
          Some (case generate_ca_bundle env ''.ca-cert.pem'' ?w3 of
                  (Inl e, w4) \<Rightarrow> (Inl e, w4)
                | (Inr c, w4) \<Rightarrow>
                    (Inr \<lparr>h_env = env, port = p, proc = next_pid w, cafile = c\<rparr>, w4))"
    unfolding run by (simp split: prod.splits sum.splits)
  moreover have "files ?w3 = files w" "certifi_where ?w3 = certifi_where w"
    "open_w_err ?w3 = open_w_err w"
    by (simp_all add: after_rounds_fields spawned_fields spawned_more_fields)
  ultimately show ?thesis by blast
qed

theorem start_generates_bundle_witness:
  "\<exists>w'. init ''mitmdump'' [] demo_env demo_world =
          Some (Inr \<lparr>h_env = demo_env, port = 8080, proc = 4242,
                     cafile = \<lparr>proot = ''/'', pparts = [''build'', ''.ca-cert.pem'']\<rparr>\<rparr>, w')
      \<and> files w' ''/build/.ca-cert.pem'' = Some (''MITM'' @ [CHR 0x0A] @ ''SYSTEM'')"
proof -
  have h1: "ephemeral demo_world = Inr 8080" and h2: "exec_err demo_world ''mitmdump'' = None"
    by (simp_all add: demo_fields)
  from start_generates_bundle[OF h1 h2 demo_time demo_swallowed, of "[]" demo_env] obtain w3
    where f: "files w3 = files demo_world" "certifi_where w3 = certifi_where demo_world"
      "open_w_err w3 = open_w_err demo_world"
      and run: "init ''mitmdump'' [] demo_env demo_world =
               Some (case generate_ca_bundle demo_env ''.ca-cert.pem'' w3 of
                       (Inl e, w4) \<Rightarrow> (Inl e, w4)
                     | (Inr c, w4) \<Rightarrow>
                         (Inr \<lparr>h_env = demo_env, port = 8080, proc = next_pid demo_world,
                               cafile = c\<rparr>, w4))"
    by blast
  have p: "truediv (Path ''/build'') ''.ca-cert.pem''
             = \<lparr>proot = ''/'', pparts = [''build'', ''.ca-cert.pem'']\<rparr>"
    by (simp add: truediv_def Path_def splitroot_def Let_def)
  have "generate_ca_bundle demo_env ''.ca-cert.pem'' w3 =
          (Inr (truediv (Path ''/build'') ''.ca-cert.pem''),
           w3\<lparr>files := (files w3)(str_path (truediv (Path ''/build'') ''.ca-cert.pem'')
                          \<mapsto> ''MITM'' @ [CHR 0x0A] @ ''SYSTEM''),
              trace := trace w3 @
                [ERead (str_path (truediv (Path ''/build'') ''.mitmproxy/mitmproxy-ca-cert.pem'')),
                 ERead (certifi_where w3),
                 ETruncate (str_path (truediv (Path ''/build'') ''.ca-cert.pem'')),
                 EWrite (str_path (truediv (Path ''/build'') ''.ca-cert.pem'')) ''MITM'',
                 EWrite (str_path (truediv (Path ''/build'') ''.ca-cert.pem'')) [CHR 0x0A],
                 EWrite (str_path (truediv (Path ''/build'') ''.ca-cert.pem'')) ''SYSTEM'']\<rparr>)"
    by (rule generate_ca_bundle_ok) (simp_all add: f demo_home demo_paths demo_files demo_fields)
  with run show ?thesis
    by (simp add: demo_fields demo_paths p str_path_def)
qed

text \<open>
  C7. \<open>kill\<close> returns normally in every world, and so does a second call after it. On
  a running child it sends the signal and returns at once: nothing else happens, and the
  exit status is not collected. A second call finds the child dead, collects its status
  and sends nothing.
\<close>

theorem kill_never_raises:
  "fst (kill h w) = Inr ()
   \<and> fst (kill h (snd (kill h w))) = Inr ()
   \<and> (returncode w (proc h) = None \<and> procs w (proc h) = Some c \<and> pstate c = Running \<longrightarrow>
        snd (kill h w) =
          w\<lparr>procs := (procs w)(proc h \<mapsto> c\<lparr>pstate := Zombie (- 9)\<rparr>),
            trace := trace w @ [ESignal (proc h)]\<rparr>
        \<and> returncode (snd (kill h w)) (proc h) = None
        \<and> trace (snd (kill h (snd (kill h w)))) = trace w @ [ESignal (proc h), EReap (proc h)])"
proof (intro conjI impI)
  show "fst (kill h w) = Inr ()" by (simp add: kill_def Popen_kill_ok)
  show "fst (kill h (snd (kill h w))) = Inr ()" by (simp add: kill_def Popen_kill_ok)
next
  assume a: "returncode w (proc h) = None \<and> procs w (proc h) = Some c \<and> pstate c = Running"
  then show first: "snd (kill h w) =
          w\<lparr>procs := (procs w)(proc h \<mapsto> c\<lparr>pstate := Zombie (- 9)\<rparr>),
            trace := trace w @ [ESignal (proc h)]\<rparr>"
    by (simp add: kill_def Popen_kill_def poll_def os_kill_def)
  from a show "returncode (snd (kill h w)) (proc h) = None"
    by (simp add: first)
  from a show "trace (snd (kill h (snd (kill h w)))) = trace w @ [ESignal (proc h), EReap (proc h)]"
    by (simp add: first) (simp add: kill_def Popen_kill_def poll_def os_kill_def)
qed

theorem kill_never_raises_witness:
  "fst (kill \<lparr>h_env = demo_env, port = 8080, proc = 4242, cafile = Path ''/build/.ca-cert.pem''\<rparr>
         (spawned ''mitmdump'' [] demo_env 8080 demo_world)) = Inr ()
   \<and> trace (snd (kill \<lparr>h_env = demo_env, port = 8080, proc = 4242,
                       cafile = Path ''/build/.ca-cert.pem''\<rparr>
                  (spawned ''mitmdump'' [] demo_env 8080 demo_world)))
       = [EBind 8080, EClose 8080,
          ESpawn 4242 [''mitmdump'', ''--listen-port'', str_nat 8080, ''--anticache''],
          ESignal 4242]"
proof -
  let ?h = "\<lparr>h_env = demo_env, port = 8080, proc = 4242, cafile = Path ''/build/.ca-cert.pem''\<rparr>"
  let ?w = "spawned ''mitmdump'' [] demo_env 8080 demo_world"
  let ?c = "\<lparr>argv = [''mitmdump'', ''--listen-port'', str_nat 8080, ''--anticache''] @ [],
             penv = demo_env, stdout_to = ParentStderr, stderr_to = ParentStderr,
             pstate = Running\<rparr>"
  have a: "returncode ?w (proc ?h) = None \<and> procs ?w (proc ?h) = Some ?c \<and> pstate ?c = Running"
    by (simp add: spawned_def demo_fields)
  from kill_never_raises[of ?h ?w ?c] a show ?thesis
    by (simp add: spawned_more_fields demo_fields)
qed

text \<open>
  C8. As stated the claim fails: with a relative home directory the path returned is
  relative. Nothing in \<open>generate_ca_bundle\<close> resolves the path.
\<close>

theorem relative_home_counterexample:
  "fst (generate_ca_bundle [''HOME'' \<mapsto> ''build''] ''.ca-cert.pem''
          (demo_world\<lparr>files := [''build/.mitmproxy/mitmproxy-ca-cert.pem'' \<mapsto> ''MITM'',
                                 ''/nix/cacert.pem'' \<mapsto> ''SYSTEM'']\<rparr>))
     = Inr \<lparr>proot = '''', pparts = [''build'', ''.ca-cert.pem'']\<rparr>
   \<and> \<not> is_absolute \<lparr>proot = '''', pparts = [''build'', ''.ca-cert.pem'']\<rparr>"
proof -
  let ?w = "demo_world\<lparr>files := [''build/.mitmproxy/mitmproxy-ca-cert.pem'' \<mapsto> ''MITM'',
                                 ''/nix/cacert.pem'' \<mapsto> ''SYSTEM'']\<rparr>"
  have p: "truediv (Path ''build'') ''.ca-cert.pem''
             = \<lparr>proot = '''', pparts = [''build'', ''.ca-cert.pem'']\<rparr>"
    "str_path (truediv (Path ''build'') ''.mitmproxy/mitmproxy-ca-cert.pem'')
       = ''build/.mitmproxy/mitmproxy-ca-cert.pem''"
    by (simp_all add: str_path_def truediv_def Path_def splitroot_def Let_def)
  have "fst (generate_ca_bundle [''HOME'' \<mapsto> ''build''] ''.ca-cert.pem'' ?w)
          = Inr (truediv (Path ''build'') ''.ca-cert.pem'')"
    by (subst generate_ca_bundle_ok[where hs = "''build''" and a = "''MITM''" and b = "''SYSTEM''"])
      (simp_all add: p(2) demo_fields)
  then show ?thesis by (simp add: p(1) is_absolute_def)
qed

text \<open>
  C8, amended. The path that \<open>generate_ca_bundle\<close> returns is the home directory joined
  with the output name, and it names the file that was opened and written; it is
  absolute exactly when the home directory or the output name starts with a slash, so
  for a relative output name exactly when the home directory is absolute.
\<close>

theorem returned_path:
  assumes "generate_ca_bundle env path w = (Inr c, w')"
  shows "\<exists>hs. env ''HOME'' = Some hs
           \<and> c = truediv (Path hs) path
           \<and> (is_absolute c \<longleftrightarrow> take 1 hs = ''/'' \<or> take 1 path = ''/'')
           \<and> str_path c \<in> dom (files w')
           \<and> filter is_write (trace w') = filter is_write (trace w) @
                [ETruncate (str_path c)] @ filter is_write (drop (length (trace w) + 3) (trace w'))"
proof -
  from generate_ca_bundle_Inr[OF assms] obtain hs a b
    where home: "env ''HOME'' = Some hs"
      and ca: "files w (str_path (truediv (Path hs) ''.mitmproxy/mitmproxy-ca-cert.pem'')) = Some a"
      and sys: "files w (certifi_where w) = Some b"
      and wr: "open_w_err w (str_path (truediv (Path hs) path)) = None"
    by blast
  from generate_ca_bundle_ok[where env = env and path = path, OF home ca sys wr] assms
  have c: "c = truediv (Path hs) path"
    and w': "w' = w\<lparr>files := (files w)(str_path (truediv (Path hs) path) \<mapsto> a @ [CHR 0x0A] @ b),
              trace := trace w @
                [ERead (str_path (truediv (Path hs) ''.mitmproxy/mitmproxy-ca-cert.pem'')),
                 ERead (certifi_where w),
                 ETruncate (str_path (truediv (Path hs) path)),
                 EWrite (str_path (truediv (Path hs) path)) a,
                 EWrite (str_path (truediv (Path hs) path)) [CHR 0x0A],
                 EWrite (str_path (truediv (Path hs) path)) b]\<rparr>"
    by simp_all
  have "is_absolute c \<longleftrightarrow> take 1 hs = ''/'' \<or> take 1 path = ''/''"
    unfolding c by (auto simp add: is_absolute_truediv is_absolute_Path)
  moreover have "str_path c \<in> dom (files w')" by (simp add: w' c)
  moreover have "filter is_write (trace w') = filter is_write (trace w) @
                [ETruncate (str_path c)] @ filter is_write (drop (length (trace w) + 3) (trace w'))"
    by (simp add: w' c)
  ultimately show ?thesis using home c by blast
qed

theorem returned_path_witness:
  "\<exists>w'. generate_ca_bundle demo_env ''.ca-cert.pem'' demo_world
           = (Inr \<lparr>proot = ''/'', pparts = [''build'', ''.ca-cert.pem'']\<rparr>, w')
      \<and> is_absolute \<lparr>proot = ''/'', pparts = [''build'', ''.ca-cert.pem'']\<rparr>
      \<and> ''/build/.ca-cert.pem'' \<in> dom (files w')"
proof -
  have p: "truediv (Path ''/build'') ''.ca-cert.pem''
             = \<lparr>proot = ''/'', pparts = [''build'', ''.ca-cert.pem'']\<rparr>"
    by (simp add: truediv_def Path_def splitroot_def Let_def)
  have "\<exists>w'. generate_ca_bundle demo_env ''.ca-cert.pem'' demo_world
           = (Inr (truediv (Path ''/build'') ''.ca-cert.pem''), w')"
    by (subst generate_ca_bundle_ok[where hs = "''/build''" and a = "''MITM''" and b = "''SYSTEM''"])
      (simp_all add: demo_home demo_paths demo_files demo_fields)
  then obtain w' where run: "generate_ca_bundle demo_env ''.ca-cert.pem'' demo_world
           = (Inr \<lparr>proot = ''/'', pparts = [''build'', ''.ca-cert.pem'']\<rparr>, w')"
    by (auto simp add: p)
  from returned_path[OF run] run show ?thesis
    by (intro exI[of _ w']) (auto simp add: demo_home str_path_def)
qed

text \<open>
  C9. A run of \<open>wait\<close> that returns, normally or not, has made its attempts and its
  sleeps in alternation, as many sleeps of one second as attempts, so the last attempt
  too is followed by a sleep. In particular, when the first attempt answers with a status
  below 400, \<open>wait\<close> returns only after the request and a full sleep.
\<close>

theorem sleep_after_every_attempt:
  "(wait p u t w = Some (r, w') \<longrightarrow>
      (\<exists>n. trace w' = trace w @
              concat (replicate n [EUrlopen u (''127.0.0.1:'' @ str_nat p) 5, ESleep 1])
          \<and> n_req w' = n_req w + n \<and> n_sleep w' = n_sleep w + n
          \<and> clock w' = clock w + (\<Sum>i<n. iteration_advance w i)))
   \<and> (0 < t \<and> outcome (net w (n_req w)) = Inr res \<and> status res < 400 \<longrightarrow>
        wait p u t w =
          Some (Inr (),
                w\<lparr>clock := clock w + dur (net w (n_req w)) + 1 + oversleep w (n_sleep w),
                  n_req := Suc (n_req w),
                  n_sleep := Suc (n_sleep w),
                  trace := trace w @ [EUrlopen u (''127.0.0.1:'' @ str_nat p) 5, ESleep 1]\<rparr>))"
proof (intro conjI impI)
  assume "wait p u t w = Some (r, w')"
  then have "wait_loop (clock w + t) (poll_request p u) w = Some (r, w')" by (simp add: wait_eq)
  from wait_loop_shape[OF this] obtain n where "w' = after_rounds (poll_request p u) n w"
    by auto
  then show "\<exists>n. trace w' = trace w @
              concat (replicate n [EUrlopen u (''127.0.0.1:'' @ str_nat p) 5, ESleep 1])
          \<and> n_req w' = n_req w + n \<and> n_sleep w' = n_sleep w + n
          \<and> clock w' = clock w + (\<Sum>i<n. iteration_advance w i)"
    by (intro exI[of _ n])
      (simp add: after_rounds_fields poll_request_def set_proxy_def Request_def)
next
  assume a: "0 < t \<and> outcome (net w (n_req w)) = Inr res \<and> status res < 400"
  then have "wait_loop (clock w + t) (poll_request p u) w
               = Some (Inr (), after_rounds (poll_request p u) (Suc 0) w)"
    by (intro wait_loop_break[where res = res]) simp_all
  then show "wait p u t w =
          Some (Inr (),
                w\<lparr>clock := clock w + dur (net w (n_req w)) + 1 + oversleep w (n_sleep w),
                  n_req := Suc (n_req w),
                  n_sleep := Suc (n_sleep w),
                  trace := trace w @ [EUrlopen u (''127.0.0.1:'' @ str_nat p) 5, ESleep 1]\<rparr>)"
    by (simp add: wait_eq after_rounds_def iteration_advance_def poll_request_def set_proxy_def
        Request_def)
qed

theorem sleep_after_every_attempt_witness:
  "\<exists>w'. wait 8080 ''http://pypi.org'' 10
           (demo_world\<lparr>net := (\<lambda>k. \<lparr>dur = 1 / 2, outcome = Inr \<lparr>status = 200\<rparr>\<rparr>)\<rparr>)
        = Some (Inr (), w')
      \<and> clock w' = 3 / 2 \<and> n_req w' = 1 \<and> n_sleep w' = 1
      \<and> trace w' = [EUrlopen ''http://pypi.org'' (''127.0.0.1:'' @ str_nat 8080) 5, ESleep 1]"
proof -
  let ?w = "demo_world\<lparr>net := (\<lambda>k. \<lparr>dur = 1 / 2, outcome = Inr \<lparr>status = 200\<rparr>\<rparr>)\<rparr>"
  let ?w' = "?w\<lparr>clock := clock ?w + dur (net ?w (n_req ?w)) + 1 + oversleep ?w (n_sleep ?w),
                n_req := Suc (n_req ?w),
                n_sleep := Suc (n_sleep ?w),
                trace := trace ?w @
                  [EUrlopen ''http://pypi.org'' (''127.0.0.1:'' @ str_nat 8080) 5, ESleep 1]\<rparr>"
  note claim = sleep_after_every_attempt[of 8080 "''http://pypi.org''" 10 ?w "Inr ()" ?w'
      "\<lparr>status = 200\<rparr>"]
  have a: "(0::real) < 10 \<and> outcome (net ?w (n_req ?w)) = Inr \<lparr>status = 200\<rparr>
             \<and> status \<lparr>status = 200\<rparr> < 400"
    by simp
  from claim a have run: "wait 8080 ''http://pypi.org'' 10 ?w = Some (Inr (), ?w')"
    by blast
  from claim run obtain n
    where "n_req ?w' = n_req ?w + n" and "n_sleep ?w' = n_sleep ?w + n"
    by blast
  then have "n_sleep ?w' = 1" by (simp add: demo_fields)
  moreover have "clock ?w' = 3 / 2" "n_req ?w' = 1"
    "trace ?w' = [EUrlopen ''http://pypi.org'' (''127.0.0.1:'' @ str_nat 8080) 5, ESleep 1]"
    by (simp_all add: demo_fields)
  ultimately show ?thesis using run by blast
qed

text \<open>
  C10. With no \<open>HOME\<close> in the environment, and the port found, the child spawned and
  the poll returned, the constructor raises \<open>KeyError\<close>: no handle is returned, the
  child stays in the process table, running and never signalled, and no file has changed.
\<close>

theorem missing_home:
  assumes "env ''HOME'' = None"
    and "ephemeral w = Inr p" and "exec_err w exe = None"
    and "\<forall>i. 1 \<le> iteration_advance w i" and "\<forall>k. swallowed (outcome (net w k))"
  shows "\<exists>n w'. 0 < n
           \<and> init exe args env w = Some (Inl (KeyError ''HOME''), w')
           \<and> trace w' = trace w @
               [EBind p, EClose p,
                ESpawn (next_pid w) ([exe, ''--listen-port'', str_nat p, ''--anticache''] @ args)] @
               concat (replicate n [EUrlopen ''http://pypi.org'' (''127.0.0.1:'' @ str_nat p) 5,
                                    ESleep 1])
           \<and> procs w' = (procs w)(next_pid w \<mapsto>
               \<lparr>argv = [exe, ''--listen-port'', str_nat p, ''--anticache''] @ args, penv = env,
                stdout_to = ParentStderr, stderr_to = ParentStderr, pstate = Running\<rparr>)
           \<and> files w' = files w"
proof -
  from init_polled[OF assms(2-5), of args env] obtain n
    where n: "0 < n"
      and run: "init exe args env w =
             (case generate_ca_bundle env ''.ca-cert.pem''
                     (after_rounds (poll_request p ''http://pypi.org'') n (spawned exe args env p w)) of
                (Inl e, w4) \<Rightarrow> Some (Inl e, w4)
              | (Inr c, w4) \<Rightarrow>
                  Some (Inr \<lparr>h_env = env, port = p, proc = next_pid w, cafile = c\<rparr>, w4))"
    by blast
  let ?w3 = "after_rounds (poll_request p ''http://pypi.org'') n (spawned exe args env p w)"
  have "init exe args env w = Some (Inl (KeyError ''HOME''), ?w3)"
    unfolding run by (simp add: generate_ca_bundle_no_home[where env = env, OF assms(1)])
  moreover have "trace ?w3 = trace w @
               [EBind p, EClose p,
                ESpawn (next_pid w) ([exe, ''--listen-port'', str_nat p, ''--anticache''] @ args)] @
               concat (replicate n [EUrlopen ''http://pypi.org'' (''127.0.0.1:'' @ str_nat p) 5,
                                    ESleep 1])"
    by (simp add: after_rounds_fields spawned_more_fields poll_request_def set_proxy_def
        Request_def)
  moreover have "procs ?w3 = (procs w)(next_pid w \<mapsto>
               \<lparr>argv = [exe, ''--listen-port'', str_nat p, ''--anticache''] @ args, penv = env,
                stdout_to = ParentStderr, stderr_to = ParentStderr, pstate = Running\<rparr>)"
    by (simp add: after_rounds_fields spawned_more_fields)
  moreover have "files ?w3 = files w"
    by (simp add: after_rounds_fields spawned_fields)
  ultimately show ?thesis using n by blast
qed

theorem missing_home_witness:
  "\<exists>w'. init ''mitmdump'' [] Map.empty demo_world = Some (Inl (KeyError ''HOME''), w')
      \<and> map_option pstate (procs w' 4242) = Some Running
      \<and> filter is_spawn (trace w') = [ESpawn 4242 [''mitmdump'', ''--listen-port'', ''8080'', ''--anticache'']]"
proof -
  have h1: "(Map.empty :: string \<rightharpoonup> string) ''HOME'' = None" by simp
  have h2: "ephemeral demo_world = Inr 8080" and h3: "exec_err demo_world ''mitmdump'' = None"
    by (simp_all add: demo_fields)
  have s: "str_nat 8080 = ''8080''" by (simp add: str_nat.simps digit_def)
  from missing_home[OF h1 h2 h3 demo_time demo_swallowed, of "[]"]
  show ?thesis by (auto simp add: demo_fields s rounds_no_spawn)
qed

end
